theory Spec2Isabelle
  imports Main "HOL-Library.Multiset"
begin


section \<open>Abstract syntax (parser.py)\<close>

text \<open>
  The parser builds the AST as nested Python dictionaries tagged by a \<open>"type"\<close> entry.
  Each tag is a constructor here. A Block is the list of its statements; the
  \<open>"alternative"\<close> of an If is \<open>None\<close> or a Block.
\<close>

datatype expr =
    AInteger string
  | ADecimal string
  | AString string
  | ABoolean bool
  | ANil
  | AIdentifier string
  | ALet string expr
  | AMutableLet string expr
  | ACall expr "expr list"
  | AInfix string expr expr
  | APrefix string expr
  | AAssignment string expr
  | AList "expr list"
  | ASet "expr list"
  | ADictionary "(expr \<times> expr) list"
  | AFunction "string list" "stmt list"
  | AIf expr "stmt list" "stmt list option"
  | AIndex expr expr
  | AFunctionComposition "expr list"
  | AFunctionThread expr "expr list"
and stmt =
    SExpression expr
  | SComment string

section \<open>Values (evaluator.py)\<close>

text \<open>
  A Python \<open>str\<close> is modelled as a \<open>string\<close>, one \<open>char\<close> per code point.
  Python integers are unbounded: \<open>int\<close>. The payload of an \<open>ElfDecimal\<close> is an object
  of Python's \<open>decimal.Decimal\<close>; that library is not part of the repository, so its
  objects are the type parameter \<open>'d\<close> and its operations are the fields of a record
  passed to every function that uses them.

  An \<open>ElfFunction\<close> holds its parameters, its body and its closure, which is either a
  reference to an \<open>Environment\<close> object (an address in the store of environments) or a
  plain dictionary (the "legacy dict-based closure" of \<open>call_user_function\<close>).
  An \<open>ElfBuiltinFunction\<close> holds name, native function, arity and partial arguments; the
  native function is one of the \<open>builtin_*\<close> methods or the \<open>composed_call\<close> closure of
  \<open>compose_functions\<close>, which captures \<open>left\<close> and \<open>right\<close>.
\<close>

datatype 'd "value" =
    is_Integer: ElfInteger (int_value: int)
  | is_Decimal: ElfDecimal (dec_value: 'd)
  | is_String: ElfString (str_value: string)
  | is_Boolean: ElfBoolean (bool_value: bool)
  | is_Nil: ElfNil
  | is_List: ElfList (items: "'d value list")
  | is_Set: ElfSet (items: "'d value list")
  | is_Dictionary: ElfDictionary (pairs: "('d value \<times> 'd value) list")
  | is_Function: ElfFunction (parameters: "string list") (body: "stmt list")
      (closure_env: "'d closure_env")
  | is_BuiltinFunction: ElfBuiltinFunction (name: string) (func: "'d native") (arity: int)
      (partial_args: "'d value list")
and 'd closure_env =
    EnvRef nat
  | DictClosure "(string \<times> 'd value) list"
and 'd native =
    Puts | Push | Assoc | First | Rest | Size | Map | Filter | Fold
  | Add | Subtract | Multiply | Divide
  | Composed "'d value" "'d value"

text \<open>
  \<open>RuntimeError\<close> is the exception class that evaluator.py defines itself (it shadows
  Python's builtin of the same name); \<open>PyException\<close> is any other Python exception,
  with its message.
\<close>

datatype error = RuntimeError string | PyException string

text \<open>\<open>type(v).__name__[3:]\<close>, which is also \<open>type(v).__name__.replace('Elf', '')\<close>.\<close>

fun type_name :: "'d value \<Rightarrow> string" where
  "type_name (ElfInteger _) = ''Integer''"
| "type_name (ElfDecimal _) = ''Decimal''"
| "type_name (ElfString _) = ''String''"
| "type_name (ElfBoolean _) = ''Boolean''"
| "type_name ElfNil = ''Nil''"
| "type_name (ElfList _) = ''List''"
| "type_name (ElfSet _) = ''Set''"
| "type_name (ElfDictionary _) = ''Dictionary''"
| "type_name (ElfFunction _ _ _) = ''Function''"
| "type_name (ElfBuiltinFunction _ _ _ _) = ''BuiltinFunction''"

section \<open>Results and the Python library\<close>

definition bindE :: "error + 'a \<Rightarrow> ('a \<Rightarrow> error + 'b) \<Rightarrow> error + 'b" where
  "bindE m f = (case m of Inl e \<Rightarrow> Inl e | Inr x \<Rightarrow> f x)"

text \<open>
  The operations of Python's \<open>decimal\<close> and \<open>float\<close> that evaluator.py calls. \<open>'d\<close> is
  the type of \<open>Decimal\<close> objects, \<open>'f\<close> the type of floats. An operation that can raise
  returns a sum. Nothing is assumed about them.
\<close>

record ('d, 'f) pylib =
  Decimal_of_str :: "string \<Rightarrow> error + 'd"         \<comment> \<open>\<open>Decimal(s)\<close>\<close>
  Decimal_of_float :: "'f \<Rightarrow> error + 'd"          \<comment> \<open>\<open>Decimal(str(x))\<close>\<close>
  dec_mod1_is_zero :: "'d \<Rightarrow> error + bool"        \<comment> \<open>\<open>d % 1 == 0\<close>\<close>
  dec_int :: "'d \<Rightarrow> error + int"                  \<comment> \<open>\<open>int(d)\<close>\<close>
  dec_str :: "'d \<Rightarrow> string"                       \<comment> \<open>\<open>str(d)\<close>\<close>
  dec_neg :: "'d \<Rightarrow> error + 'd"                   \<comment> \<open>\<open>-d\<close>\<close>
  dec_eq :: "'d \<Rightarrow> 'd \<Rightarrow> bool"                  \<comment> \<open>\<open>d1 == d2\<close>\<close>
  dec_ne_zero :: "'d \<Rightarrow> bool"                     \<comment> \<open>\<open>d != 0\<close>\<close>
  dec_of_int :: "int \<Rightarrow> 'd"                       \<comment> \<open>\<open>Decimal(i)\<close>\<close>
  dec_gt :: "'d \<Rightarrow> 'd \<Rightarrow> error + bool"          \<comment> \<open>\<open>d1 > d2\<close>\<close>
  dec_lt :: "'d \<Rightarrow> 'd \<Rightarrow> error + bool"          \<comment> \<open>\<open>d1 < d2\<close>\<close>
  float_of_dec :: "'d \<Rightarrow> error + 'f"              \<comment> \<open>\<open>float(d)\<close>\<close>
  float_of_int :: "int \<Rightarrow> error + 'f"             \<comment> \<open>\<open>float(i)\<close>\<close>
  float_add :: "'f \<Rightarrow> 'f \<Rightarrow> error + 'f"
  float_sub :: "'f \<Rightarrow> 'f \<Rightarrow> error + 'f"
  float_mul :: "'f \<Rightarrow> 'f \<Rightarrow> error + 'f"
  float_div :: "'f \<Rightarrow> 'f \<Rightarrow> error + 'f"
  float_eq_zero :: "'f \<Rightarrow> bool"                   \<comment> \<open>\<open>x == 0\<close>\<close>
  float_eq :: "'f \<Rightarrow> 'f \<Rightarrow> bool"                \<comment> \<open>\<open>x == y\<close>\<close>
  float_lt :: "'f \<Rightarrow> 'f \<Rightarrow> bool"                \<comment> \<open>\<open>x < y\<close>\<close>
  int_of_str :: "string \<Rightarrow> error + int"           \<comment> \<open>\<open>int(s)\<close> when \<open>s\<close> is not a plain run of digits\<close>

subsection \<open>Integers and strings\<close>

text \<open>
  \<open>str(i)\<close> and \<open>int(s)\<close> for Python integers, without CPython's limit on the number
  of digits of one conversion.
\<close>

definition digit_char :: "nat \<Rightarrow> char" where
  "digit_char n = ''0123456789'' ! n"

fun str_nat :: "nat \<Rightarrow> string" where
  "str_nat n = (if n < 10 then [digit_char n] else str_nat (n div 10) @ [digit_char (n mod 10)])"

declare str_nat.simps [simp del]

definition str_int :: "int \<Rightarrow> string" where
  "str_int i = (if i < 0 then CHR ''-'' # str_nat (nat (- i)) else str_nat (nat i))"

definition is_ascii_digit :: "char \<Rightarrow> bool" where
  "is_ascii_digit c = (48 \<le> (of_char c :: nat) \<and> (of_char c :: nat) \<le> 57)"

definition digits_value :: "string \<Rightarrow> nat" where
  "digits_value s = foldl (\<lambda>acc c. 10 * acc + ((of_char c :: nat) - 48)) 0 s"

definition py_int :: "('d, 'f) pylib \<Rightarrow> string \<Rightarrow> error + int" where
  "py_int L s = (if s \<noteq> [] \<and> list_all is_ascii_digit s then Inr (int (digits_value s))
                 else int_of_str L s)"

text \<open>\<open>s.replace(c, r)\<close> for a one-character \<open>c\<close>, and \<open>sep.join(xs)\<close>.\<close>

definition replace_chr :: "char \<Rightarrow> string \<Rightarrow> string \<Rightarrow> string" where
  "replace_chr c r s = concat (map (\<lambda>x. if x = c then r else [x]) s)"

fun join :: "string \<Rightarrow> string list \<Rightarrow> string" where
  "join sep [] = []"
| "join sep [x] = x"
| "join sep (x # y # ys) = x @ sep @ join sep (y # ys)"

text \<open>Python compares strings lexicographically by code point.\<close>

fun str_lt :: "string \<Rightarrow> string \<Rightarrow> bool" where
  "str_lt [] [] = False"
| "str_lt [] (y # ys) = True"
| "str_lt (x # xs) [] = False"
| "str_lt (x # xs) (y # ys) =
     (if x = y then str_lt xs ys else (of_char x :: nat) < of_char y)"

subsection \<open>Integer true division\<close>

text \<open>
  \<open>int(a / b)\<close> for Python integers \<open>a\<close> and \<open>b \<noteq> 0\<close>. The operator \<open>/\<close> on two
  integers is true division: its result is the IEEE-754 binary64 number nearest to the
  exact quotient (ties to even), or OverflowError when that is out of range. The float is
  described by sign, mantissa and exponent, with value \<open>m * 2 ^ e\<close>; \<open>int\<close> truncates
  it toward zero.
\<close>

fun bit_length :: "nat \<Rightarrow> nat" where
  "bit_length n = (if n = 0 then 0 else Suc (bit_length (n div 2)))"

declare bit_length.simps [simp del]

definition round_half_even :: "nat \<Rightarrow> nat \<Rightarrow> nat" where
  "round_half_even n d =
     (let q = n div d; r = n mod d
      in if 2 * r < d then q else if 2 * r > d then q + 1
         else if even q then q else q + 1)"

definition int_true_divide :: "int \<Rightarrow> int \<Rightarrow> error + (bool \<times> nat \<times> int)" where
  "int_true_divide a b =
     (if a = 0 then Inr (b < 0, 0, 0)
      else
        let n = nat \<bar>a\<bar>; d = nat \<bar>b\<bar>;
            k = int (bit_length n) - int (bit_length d);
            lg = (if (if 0 \<le> k then d * 2 ^ nat k \<le> n else d \<le> n * 2 ^ nat (- k))
                  then k else k - 1);
            e = max (lg - 52) (- 1074);
            m = (if 0 \<le> e then round_half_even n (d * 2 ^ nat e)
                 else round_half_even (n * 2 ^ nat (- e)) d)
        in if 0 \<le> e \<and> 2 ^ 1024 \<le> m * 2 ^ nat e
           then Inl (PyException ''integer division result too large for a float'')
           else Inr ((a < 0) \<noteq> (b < 0), m, e))"

definition int_of_float :: "bool \<times> nat \<times> int \<Rightarrow> int" where
  "int_of_float x =
     (case x of (neg, m, e) \<Rightarrow>
        let t = (if 0 \<le> e then m * 2 ^ nat e else m div 2 ^ nat (- e))
        in if neg then - int t else int t)"

section \<open>Structural equality, truthiness and printing\<close>

text \<open>
  \<open>values_equal\<close>: values of different classes are unequal; functions are never equal;
  lists compare element-wise; sets and dictionaries compare sizes and then look every
  left item (pair) up on the right.
\<close>

fun values_equal :: "('d, 'f) pylib \<Rightarrow> 'd value \<Rightarrow> 'd value \<Rightarrow> bool" where
  "values_equal L (ElfInteger a) r = (case r of ElfInteger b \<Rightarrow> a = b | _ \<Rightarrow> False)"
| "values_equal L (ElfDecimal a) r = (case r of ElfDecimal b \<Rightarrow> dec_eq L a b | _ \<Rightarrow> False)"
| "values_equal L (ElfString a) r = (case r of ElfString b \<Rightarrow> a = b | _ \<Rightarrow> False)"
| "values_equal L (ElfBoolean a) r = (case r of ElfBoolean b \<Rightarrow> a = b | _ \<Rightarrow> False)"
| "values_equal L ElfNil r = (case r of ElfNil \<Rightarrow> True | _ \<Rightarrow> False)"
| "values_equal L (ElfList xs) r =
     (case r of ElfList ys \<Rightarrow> length xs = length ys \<and> list_all2 (values_equal L) xs ys
      | _ \<Rightarrow> False)"
| "values_equal L (ElfSet xs) r =
     (case r of ElfSet ys \<Rightarrow>
        length xs = length ys \<and> list_all (\<lambda>x. list_ex (\<lambda>y. values_equal L x y) ys) xs
      | _ \<Rightarrow> False)"
| "values_equal L (ElfDictionary ps) r =
     (case r of ElfDictionary qs \<Rightarrow>
        length ps = length qs \<and>
        list_all (\<lambda>p. list_ex (\<lambda>q. values_equal L (fst p) (fst q) \<and>
                                     values_equal L (snd p) (snd q)) qs) ps
      | _ \<Rightarrow> False)"
| "values_equal L (ElfFunction _ _ _) r = False"
| "values_equal L (ElfBuiltinFunction _ _ _ _) r = False"

text \<open>
  \<open>is_truthy\<close>: the class defines this method twice; the second definition (the one
  that replaces the first in the class) is the one modelled.
\<close>

fun is_truthy :: "('d, 'f) pylib \<Rightarrow> 'd value \<Rightarrow> bool" where
  "is_truthy L (ElfBoolean b) = b"
| "is_truthy L ElfNil = False"
| "is_truthy L (ElfInteger i) = (i \<noteq> 0)"
| "is_truthy L (ElfDecimal d) = dec_ne_zero L d"
| "is_truthy L (ElfString s) = (s \<noteq> [])"
| "is_truthy L (ElfList xs) = (length xs > 0)"
| "is_truthy L (ElfSet xs) = (length xs > 0)"
| "is_truthy L (ElfDictionary ps) = (length ps > 0)"
| "is_truthy L _ = True"

subsection \<open>Sorting for the printed form\<close>

text \<open>
  \<open>_sort_key\<close> returns a tuple \<open>(rank, value)\<close>. Python compares two tuples at the first
  position where they differ under \<open>==\<close>, with \<open>&lt;\<close> there.
\<close>

datatype 'f keyval = VInt int | VFloat 'f | VStr string | VBool bool

fun keyval_eq :: "('d, 'f) pylib \<Rightarrow> 'f keyval \<Rightarrow> 'f keyval \<Rightarrow> bool" where
  "keyval_eq L (VInt a) (VInt b) = (a = b)"
| "keyval_eq L (VFloat a) (VFloat b) = float_eq L a b"
| "keyval_eq L (VStr a) (VStr b) = (a = b)"
| "keyval_eq L (VBool a) (VBool b) = (a = b)"
| "keyval_eq L _ _ = False"

fun keyval_lt :: "('d, 'f) pylib \<Rightarrow> 'f keyval \<Rightarrow> 'f keyval \<Rightarrow> bool" where
  "keyval_lt L (VInt a) (VInt b) = (a < b)"
| "keyval_lt L (VFloat a) (VFloat b) = float_lt L a b"
| "keyval_lt L (VStr a) (VStr b) = str_lt a b"
| "keyval_lt L (VBool a) (VBool b) = (\<not> a \<and> b)"
| "keyval_lt L _ _ = False"

definition key_lt :: "('d, 'f) pylib \<Rightarrow> nat \<times> 'f keyval \<Rightarrow> nat \<times> 'f keyval \<Rightarrow> bool" where
  "key_lt L k1 k2 =
     (if fst k1 \<noteq> fst k2 then fst k1 < fst k2
      else if keyval_eq L (snd k1) (snd k2) then False
      else keyval_lt L (snd k1) (snd k2))"

text \<open>
  \<open>sort_key L v s\<close> is \<open>_sort_key(v)\<close>, where \<open>s\<close> is the result of \<open>str(v)\<close>, used in
  the last branch only.
\<close>

fun sort_key ::
  "('d, 'f) pylib \<Rightarrow> 'd value \<Rightarrow> error + string \<Rightarrow> error + (nat \<times> 'f keyval)" where
  "sort_key L (ElfInteger i) s = Inr (0, VInt i)"
| "sort_key L (ElfDecimal d) s = bindE (float_of_dec L d) (\<lambda>x. Inr (1, VFloat x))"
| "sort_key L (ElfString t) s = Inr (2, VStr t)"
| "sort_key L (ElfBoolean b) s = Inr (3, VBool b)"
| "sort_key L ElfNil s = Inr (4, VInt 0)"
| "sort_key L _ s = bindE s (\<lambda>t. Inr (5, VStr t))"

text \<open>
  \<open>sorted(items, key=...)\<close>: the keys are computed first, in order; the sort is stable
  and uses only \<open>&lt;\<close> on keys. It is modelled by a stable insertion sort (on keys that
  \<open>&lt;\<close> orders as a strict weak order, every stable sort returns the same list).
\<close>

fun insert_sorted ::
  "('k \<Rightarrow> 'k \<Rightarrow> bool) \<Rightarrow> 'k \<times> 'a \<Rightarrow> ('k \<times> 'a) list \<Rightarrow> ('k \<times> 'a) list" where
  "insert_sorted lt x [] = [x]"
| "insert_sorted lt x (y # ys) =
     (if lt (fst y) (fst x) then y # insert_sorted lt x ys else x # y # ys)"

definition sorted_by_key :: "('k \<Rightarrow> 'k \<Rightarrow> bool) \<Rightarrow> 'k list \<Rightarrow> 'a list \<Rightarrow> 'a list" where
  "sorted_by_key lt ks xs = map snd (foldr (insert_sorted lt) (zip ks xs) [])"

fun sequenceE :: "(error + 'a) list \<Rightarrow> error + 'a list" where
  "sequenceE [] = Inr []"
| "sequenceE (m # ms) = bindE m (\<lambda>x. bindE (sequenceE ms) (\<lambda>xs. Inr (x # xs)))"

subsection \<open>Printed forms: the \<open>__repr__\<close> methods\<close>

fun rstrip_chr :: "char \<Rightarrow> string \<Rightarrow> string" where
  "rstrip_chr c s = rev (dropWhile (\<lambda>x. x = c) (rev s))"

definition repr_decimal :: "('d, 'f) pylib \<Rightarrow> 'd \<Rightarrow> error + string" where
  "repr_decimal L d =
     bindE (dec_mod1_is_zero L d) (\<lambda>whole.
       if whole then bindE (dec_int L d) (\<lambda>i. Inr (str_int i))
       else Inr (rstrip_chr CHR ''.'' (rstrip_chr CHR ''0'' (dec_str L d))))"

definition repr_string :: "string \<Rightarrow> string" where
  "repr_string s =
     (let escaped = replace_chr (CHR 0x09) [CHR 0x5C, CHR ''t'']
                      (replace_chr (CHR 0x0A) [CHR 0x5C, CHR ''n'']
                        (replace_chr (CHR 0x5C) [CHR 0x5C, CHR 0x5C] s))
      in [CHR 0x22] @ escaped @ [CHR 0x22])"

text \<open>
  In the Set and Dictionary cases the source sorts the items and then prints them in the
  sorted order. Here the (not yet inspected) results of printing are sorted by the same
  keys and inspected in the sorted order, which is the same computation.
\<close>

fun repr_value :: "('d, 'f) pylib \<Rightarrow> 'd value \<Rightarrow> error + string" where
  "repr_value L (ElfInteger i) = Inr (str_int i)"
| "repr_value L (ElfDecimal d) = repr_decimal L d"
| "repr_value L (ElfString s) = Inr (repr_string s)"
| "repr_value L (ElfBoolean b) = Inr (if b then ''true'' else ''false'')"
| "repr_value L ElfNil = Inr ''nil''"
| "repr_value L (ElfList xs) =
     bindE (sequenceE (map (repr_value L) xs)) (\<lambda>items_repr.
       Inr (''['' @ join '', '' items_repr @ '']''))"
| "repr_value L (ElfSet xs) =
     bindE (sequenceE (map (\<lambda>x. sort_key L x (repr_value L x)) xs)) (\<lambda>keys.
     bindE (sequenceE (sorted_by_key (key_lt L) keys (map (repr_value L) xs)))
       (\<lambda>items_repr. Inr (''{'' @ join '', '' items_repr @ ''}'')))"
| "repr_value L (ElfDictionary ps) =
     bindE (sequenceE (map (\<lambda>x. sort_key L (fst x) (repr_value L (fst x))) ps)) (\<lambda>keys.
     bindE (sequenceE (sorted_by_key (key_lt L) keys
                        (map (\<lambda>x. bindE (repr_value L (fst x)) (\<lambda>k.
                                   bindE (repr_value L (snd x)) (\<lambda>v. Inr (k @ '': '' @ v))))
                          ps)))
       (\<lambda>pairs. Inr (''#{'' @ join '', '' pairs @ ''}'')))"
| "repr_value L (ElfFunction params b c) =
     Inr (''|'' @ join '', '' params @ ''| { [closure] }'')"
| "repr_value L (ElfBuiltinFunction nm f ar pargs) =
     Inr (if pargs \<noteq> []
          then ''<partial '' @ nm @ ''('' @ str_nat (length pargs) @ ''/''
               @ str_int ar @ '')>''
          else ''<builtin '' @ nm @ ''>'')"

section \<open>Operators\<close>

definition is_numeric :: "'d value \<Rightarrow> bool" where
  "is_numeric v = (is_Integer v \<or> is_Decimal v)"

text \<open>\<open>float(v.value)\<close> for an \<open>ElfInteger\<close> or \<open>ElfDecimal\<close> \<open>v\<close>.\<close>

definition float_value :: "('d, 'f) pylib \<Rightarrow> 'd value \<Rightarrow> error + 'f" where
  "float_value L v =
     (if is_Integer v then float_of_int L (int_value v) else float_of_dec L (dec_value v))"

text \<open>
  \<open>ElfDecimal(x)\<close> stores \<open>Decimal(str(x))\<close>, after removing underscores when \<open>x\<close> is a
  string.
\<close>

definition ElfDecimal_of_float :: "('d, 'f) pylib \<Rightarrow> 'f \<Rightarrow> error + 'd value" where
  "ElfDecimal_of_float L x = bindE (Decimal_of_float L x) (\<lambda>d. Inr (ElfDecimal d))"

definition ElfDecimal_of_str :: "('d, 'f) pylib \<Rightarrow> string \<Rightarrow> error + 'd value" where
  "ElfDecimal_of_str L s =
     bindE (Decimal_of_str L (replace_chr CHR ''_'' [] s)) (\<lambda>d. Inr (ElfDecimal d))"

definition ElfDecimal_of_Decimal :: "('d, 'f) pylib \<Rightarrow> 'd \<Rightarrow> error + 'd value" where
  "ElfDecimal_of_Decimal L d =
     bindE (Decimal_of_str L (dec_str L d)) (\<lambda>d'. Inr (ElfDecimal d'))"

definition float_arith ::
  "('d, 'f) pylib \<Rightarrow> ('f \<Rightarrow> 'f \<Rightarrow> error + 'f) \<Rightarrow> 'd value \<Rightarrow> 'd value \<Rightarrow> error + 'd value" where
  "float_arith L opr left right =
     bindE (float_value L left) (\<lambda>left_val.
     bindE (float_value L right) (\<lambda>right_val.
     bindE (opr left_val right_val) (ElfDecimal_of_float L)))"

text \<open>The two loops of the Set and Dictionary branches of \<open>add_values\<close>.\<close>

fun set_union :: "('d, 'f) pylib \<Rightarrow> 'd value list \<Rightarrow> 'd value list \<Rightarrow> 'd value list" where
  "set_union L result_items [] = result_items"
| "set_union L result_items (item # rest) =
     (if list_ex (\<lambda>existing. values_equal L existing item) result_items
      then set_union L result_items rest
      else set_union L (result_items @ [item]) rest)"

fun update_first ::
  "('d, 'f) pylib \<Rightarrow> 'd value \<Rightarrow> 'd value \<Rightarrow> ('d value \<times> 'd value) list
   \<Rightarrow> ('d value \<times> 'd value) list option" where
  "update_first L k v [] = None"
| "update_first L k v (p # ps) =
     (if values_equal L (fst p) k then Some ((k, v) # ps)
      else map_option (\<lambda>ps'. p # ps') (update_first L k v ps))"

fun dict_merge ::
  "('d, 'f) pylib \<Rightarrow> ('d value \<times> 'd value) list \<Rightarrow> ('d value \<times> 'd value) list
   \<Rightarrow> ('d value \<times> 'd value) list" where
  "dict_merge L result_pairs [] = result_pairs"
| "dict_merge L result_pairs (r # rest) =
     (case update_first L (fst r) (snd r) result_pairs of
        Some result_pairs' \<Rightarrow> dict_merge L result_pairs' rest
      | None \<Rightarrow> dict_merge L (result_pairs @ [r]) rest)"

text \<open>\<open>str(v.value)\<close> for an Integer or a Decimal, \<open>str(v)\<close> for the rest.\<close>

definition str_operand :: "('d, 'f) pylib \<Rightarrow> 'd value \<Rightarrow> error + string" where
  "str_operand L v =
     (if is_Integer v then Inr (str_int (int_value v))
      else if is_Decimal v then Inr (dec_str L (dec_value v))
      else repr_value L v)"

definition add_values :: "('d, 'f) pylib \<Rightarrow> 'd value \<Rightarrow> 'd value \<Rightarrow> error + 'd value" where
  "add_values L left right =
     (if is_Integer left \<and> is_Integer right
      then Inr (ElfInteger (int_value left + int_value right))
      else if is_numeric left \<and> is_numeric right
      then float_arith L (float_add L) left right
      else if is_String left \<and> is_String right
      then Inr (ElfString (str_value left @ str_value right))
      else if is_String left
      then bindE (str_operand L right) (\<lambda>s. Inr (ElfString (str_value left @ s)))
      else if is_String right
      then bindE (str_operand L left) (\<lambda>s. Inr (ElfString (s @ str_value right)))
      else if is_List left \<and> is_List right
      then Inr (ElfList (items left @ items right))
      else if is_List left \<and> is_Integer right
      then Inl (RuntimeError ''Unsupported operation: List + Integer'')
      else if is_Set left \<and> is_Set right
      then Inr (ElfSet (set_union L (items left) (items right)))
      else if is_Set left \<and> is_Integer right
      then Inl (RuntimeError ''Unsupported operation: Set + Integer'')
      else if is_Dictionary left \<and> is_Dictionary right
      then Inr (ElfDictionary (dict_merge L (pairs left) (pairs right)))
      else Inl (RuntimeError (''Unsupported operation: '' @ type_name left @ '' + ''
                               @ type_name right)))"

definition subtract_values :: "('d, 'f) pylib \<Rightarrow> 'd value \<Rightarrow> 'd value \<Rightarrow> error + 'd value" where
  "subtract_values L left right =
     (if is_Integer left \<and> is_Integer right
      then Inr (ElfInteger (int_value left - int_value right))
      else if is_numeric left \<and> is_numeric right
      then float_arith L (float_sub L) left right
      else Inl (RuntimeError (''Unsupported operation: '' @ type_name left @ '' - ''
                               @ type_name right)))"

definition multiply_values :: "('d, 'f) pylib \<Rightarrow> 'd value \<Rightarrow> 'd value \<Rightarrow> error + 'd value" where
  "multiply_values L left right =
     (if is_Integer left \<and> is_Integer right
      then Inr (ElfInteger (int_value left * int_value right))
      else if is_numeric left \<and> is_numeric right
      then float_arith L (float_mul L) left right
      else if is_String left \<and> is_Integer right
      then (if int_value right < 0
            then Inl (RuntimeError ''Unsupported operation: String * Integer (< 0)'')
            else Inr (ElfString (concat (replicate (nat (int_value right)) (str_value left)))))
      else if is_String left \<and> is_Decimal right
      then Inl (RuntimeError ''Unsupported operation: String * Decimal'')
      else Inl (RuntimeError (''Unsupported operation: '' @ type_name left @ '' * ''
                               @ type_name right)))"

definition divide_values :: "('d, 'f) pylib \<Rightarrow> 'd value \<Rightarrow> 'd value \<Rightarrow> error + 'd value" where
  "divide_values L left right =
     (if is_Integer left \<and> is_Integer right
      then (if int_value right = 0 then Inl (RuntimeError ''Division by zero'')
            else bindE (int_true_divide (int_value left) (int_value right)) (\<lambda>x.
                   Inr (ElfInteger (int_of_float x))))
      else if is_numeric left \<and> is_numeric right
      then bindE (float_value L left) (\<lambda>left_val.
           bindE (float_value L right) (\<lambda>right_val.
             if float_eq_zero L right_val then Inl (RuntimeError ''Division by zero'')
             else bindE (float_div L left_val right_val) (ElfDecimal_of_float L)))
      else Inl (RuntimeError (''Unsupported operation: '' @ type_name left @ '' / ''
                               @ type_name right)))"

text \<open>\<open>compare_values\<close> returns \<open>(l > r) - (l &lt; r)\<close>.\<close>

definition bool_diff :: "bool \<Rightarrow> bool \<Rightarrow> int" where
  "bool_diff gt lt = (if gt then 1 else 0) - (if lt then 1 else 0)"

definition as_Decimal :: "('d, 'f) pylib \<Rightarrow> 'd value \<Rightarrow> 'd" where
  "as_Decimal L v = (if is_Integer v then dec_of_int L (int_value v) else dec_value v)"

definition compare_values :: "('d, 'f) pylib \<Rightarrow> 'd value \<Rightarrow> 'd value \<Rightarrow> error + int" where
  "compare_values L left right =
     (if is_Integer left \<and> is_Integer right
      then Inr (bool_diff (int_value left > int_value right) (int_value left < int_value right))
      else if is_numeric left \<and> is_numeric right
      then (let left_val = as_Decimal L left; right_val = as_Decimal L right
            in bindE (dec_gt L left_val right_val) (\<lambda>gt.
               bindE (dec_lt L left_val right_val) (\<lambda>lt. Inr (bool_diff gt lt))))
      else if is_String left \<and> is_String right
      then Inr (bool_diff (str_lt (str_value right) (str_value left))
                          (str_lt (str_value left) (str_value right)))
      else Inl (RuntimeError (''Cannot compare '' @ type_name left @ '' with ''
                               @ type_name right)))"

section \<open>Indexing\<close>

text \<open>
  \<open>index_value\<close>. \<open>len\<close> and the subscript of a Python \<open>str\<close> count code points.
  The subscript \<open>xs[idx]\<close> is only reached with \<open>0 \<le> idx &lt; len(xs)\<close>.
\<close>

fun dict_lookup :: "('d, 'f) pylib \<Rightarrow> ('d value \<times> 'd value) list \<Rightarrow> 'd value \<Rightarrow> 'd value" where
  "dict_lookup L [] index = ElfNil"
| "dict_lookup L (p # ps) index =
     (if values_equal L (fst p) index then snd p else dict_lookup L ps index)"

definition index_value :: "('d, 'f) pylib \<Rightarrow> 'd value \<Rightarrow> 'd value \<Rightarrow> error + 'd value" where
  "index_value L target index =
     (if is_String target
      then (if \<not> is_Integer index
            then Inl (RuntimeError (''Unable to perform index operation, found: String[''
                                     @ type_name index @ '']''))
            else
              let string_val = str_value target;
                  idx = int_value index;
                  idx = (if idx < 0 then int (length string_val) + idx else idx)
              in if 0 \<le> idx \<and> idx < int (length string_val)
                 then Inr (ElfString [string_val ! nat idx])
                 else Inr ElfNil)
      else if is_List target
      then (if \<not> is_Integer index
            then Inl (RuntimeError (''Unable to perform index operation, found: List[''
                                     @ type_name index @ '']''))
            else
              let xs = items target;
                  idx = int_value index;
                  idx = (if idx < 0 then int (length xs) + idx else idx)
              in if 0 \<le> idx \<and> idx < int (length xs)
                 then Inr (xs ! nat idx)
                 else Inr ElfNil)
      else if is_Dictionary target
      then Inr (dict_lookup L (pairs target) index)
      else Inl (RuntimeError (''Cannot index into '' @ type_name target)))"

section \<open>Builtin functions on collections\<close>

text \<open>The loop of \<open>builtin_push\<close> on a Set returns early when the item is found.\<close>

definition builtin_push :: "('d, 'f) pylib \<Rightarrow> 'd value \<Rightarrow> 'd value \<Rightarrow> error + 'd value" where
  "builtin_push L item collection =
     (if is_List collection then Inr (ElfList (items collection @ [item]))
      else if is_Set collection
      then (let new_items = items collection
            in if list_ex (\<lambda>existing. values_equal L existing item) new_items
               then Inr (ElfSet new_items)
               else Inr (ElfSet (new_items @ [item])))
      else Inl (RuntimeError (''Cannot push to '' @ type_name collection)))"

text \<open>
  The loop of \<open>builtin_assoc\<close> replaces every pair whose key equals \<open>key\<close> and
  remembers whether there was one.
\<close>

definition builtin_assoc ::
  "('d, 'f) pylib \<Rightarrow> 'd value \<Rightarrow> 'd value \<Rightarrow> 'd value \<Rightarrow> error + 'd value" where
  "builtin_assoc L key val dictionary =
     (if \<not> is_Dictionary dictionary
      then Inl (RuntimeError (''Cannot assoc to '' @ type_name dictionary))
      else
        let new_pairs = map (\<lambda>p. if values_equal L (fst p) key then (key, val) else p)
                          (pairs dictionary);
            key_found = list_ex (\<lambda>p. values_equal L (fst p) key) (pairs dictionary)
        in Inr (ElfDictionary (if key_found then new_pairs else new_pairs @ [(key, val)])))"

definition builtin_first :: "'d value \<Rightarrow> 'd value" where
  "builtin_first collection =
     (if is_List collection
      then (case items collection of [] \<Rightarrow> ElfNil | x # _ \<Rightarrow> x)
      else if is_String collection
      then (case str_value collection of [] \<Rightarrow> ElfNil | c # _ \<Rightarrow> ElfString [c])
      else if is_Set collection
      then (case items collection of [] \<Rightarrow> ElfNil | x # _ \<Rightarrow> x)
      else if is_Dictionary collection
      then (case pairs collection of [] \<Rightarrow> ElfNil | p # _ \<Rightarrow> fst p)
      else ElfNil)"

definition builtin_rest :: "'d value \<Rightarrow> 'd value" where
  "builtin_rest collection =
     (if is_List collection then ElfList (tl (items collection))
      else if is_String collection then ElfString (tl (str_value collection))
      else if is_Set collection then ElfSet (tl (items collection))
      else if is_Dictionary collection then ElfDictionary (tl (pairs collection))
      else ElfNil)"

text \<open>
  \<open>len(s.encode('utf-8'))\<close>: a code point below 128 takes one byte, the other code
  points of a \<open>char\<close> take two.
\<close>

definition utf8_length :: "string \<Rightarrow> nat" where
  "utf8_length s = sum_list (map (\<lambda>c. if (of_char c :: nat) < 128 then 1 else 2) s)"

definition builtin_size :: "'d value \<Rightarrow> 'd value" where
  "builtin_size collection =
     (if is_List collection \<or> is_Set collection then ElfInteger (int (length (items collection)))
      else if is_Dictionary collection then ElfInteger (int (length (pairs collection)))
      else if is_String collection then ElfInteger (int (utf8_length (str_value collection)))
      else ElfNil)"

section \<open>Composition\<close>

definition is_callable :: "'d value \<Rightarrow> bool" where
  "is_callable v = (is_Function v \<or> is_BuiltinFunction v)"

text \<open>
  \<open>compose_functions\<close> returns a builtin of arity 1 around the closure
  \<open>composed_call\<close>; its name is built from the printed forms of the two functions,
  which are printed without failure.
\<close>

definition str_callable :: "'d value \<Rightarrow> string" where
  "str_callable v =
     (if is_Function v then ''|'' @ join '', '' (parameters v) @ ''| { [closure] }''
      else if partial_args v \<noteq> []
      then ''<partial '' @ name v @ ''('' @ str_nat (length (partial_args v)) @ ''/''
           @ str_int (arity v) @ '')>''
      else ''<builtin '' @ name v @ ''>'')"

definition compose_functions :: "'d value \<Rightarrow> 'd value \<Rightarrow> error + 'd value" where
  "compose_functions left right =
     (if \<not> is_callable left
      then Inl (RuntimeError (''Cannot compose non-function: '' @ type_name left))
      else if \<not> is_callable right
      then Inl (RuntimeError (''Cannot compose non-function: '' @ type_name right))
      else Inr (ElfBuiltinFunction (''('' @ str_callable left @ ''>>'' @ str_callable right @ '')'')
                  (Composed left right) 1 []))"

section \<open>Environments and the evaluator's state\<close>

text \<open>
  \<open>Environment\<close> objects are mutable and shared: a closure keeps a reference to the
  environment of its definition, and \<open>let\<close> adds to an environment after closures have
  captured it. The state therefore holds a store of environments, addressed by position;
  address 0 is \<open>global_env\<close>. The two dictionaries of an environment are association
  lists in insertion order. The state also holds \<open>output_buffer\<close>.
\<close>

record 'd environment =
  parent :: "nat option"
  variables :: "(string \<times> 'd value) list"
  mutable :: "(string \<times> bool) list"

record 'd state =
  envs :: "'d environment list"
  output_buffer :: "string list"

text \<open>\<open>d[k] = v\<close> on a Python dictionary.\<close>

fun dict_set :: "'k \<Rightarrow> 'v \<Rightarrow> ('k \<times> 'v) list \<Rightarrow> ('k \<times> 'v) list" where
  "dict_set k v [] = [(k, v)]"
| "dict_set k v (p # ps) = (if fst p = k then (k, v) # ps else p # dict_set k v ps)"

definition global_env :: nat where
  "global_env = 0"

text \<open>
  A computation of the evaluator takes the state and returns \<open>None\<close> when the fuel of the
  model is used up, or a value or a raised exception, with the state at that point.
\<close>

type_synonym ('d, 'a) M = "'d state \<Rightarrow> ((error + 'a) \<times> 'd state) option"

definition returnM :: "'a \<Rightarrow> ('d, 'a) M" where
  "returnM x = (\<lambda>s. Some (Inr x, s))"

definition raiseM :: "error \<Rightarrow> ('d, 'a) M" where
  "raiseM e = (\<lambda>s. Some (Inl e, s))"

definition liftE :: "error + 'a \<Rightarrow> ('d, 'a) M" where
  "liftE r = (\<lambda>s. Some (r, s))"

definition bindM :: "('d, 'a) M \<Rightarrow> ('a \<Rightarrow> ('d, 'b) M) \<Rightarrow> ('d, 'b) M" where
  "bindM m f = (\<lambda>s. case m s of
                       None \<Rightarrow> None
                     | Some (Inl e, s') \<Rightarrow> Some (Inl e, s')
                     | Some (Inr x, s') \<Rightarrow> f x s')"

fun mapM :: "('a \<Rightarrow> ('d, 'b) M) \<Rightarrow> 'a list \<Rightarrow> ('d, 'b list) M" where
  "mapM f [] = returnM []"
| "mapM f (x # xs) = bindM (f x) (\<lambda>y. bindM (mapM f xs) (\<lambda>ys. returnM (y # ys)))"

text \<open>\<open>Environment(parent=p)\<close>: a new object, at the next free address.\<close>

definition new_environment :: "nat option \<Rightarrow> ('d, nat) M" where
  "new_environment p =
     (\<lambda>s. Some (Inr (length (envs s)),
                 s\<lparr>envs := envs s @ [\<lparr>parent = p, variables = [], mutable = []\<rparr>]\<rparr>))"

text \<open>\<open>env_define\<close> is the method \<open>Environment.define\<close>.\<close>

definition env_define :: "nat \<Rightarrow> string \<Rightarrow> 'd value \<Rightarrow> bool \<Rightarrow> ('d, unit) M" where
  "env_define a nm v mut =
     (\<lambda>s. let e = envs s ! a;
               e' = e\<lparr>variables := dict_set nm v (variables e),
                       mutable := dict_set nm mut (mutable e)\<rparr>
           in Some (Inr (), s\<lparr>envs := (envs s)[a := e']\<rparr>))"

text \<open>
  \<open>Environment.get\<close> and \<open>Environment.assign\<close> walk the chain of parents. An
  environment is created after its parent, so the address of the parent is the smaller
  one; the walk follows a parent link only in that direction.
\<close>

fun lookup :: "'d environment list \<Rightarrow> nat \<Rightarrow> string \<Rightarrow> error + 'd value" where
  "lookup es a nm =
     (case map_of (variables (es ! a)) nm of
        Some v \<Rightarrow> Inr v
      | None \<Rightarrow>
          (case parent (es ! a) of
             Some p \<Rightarrow> (if p < a then lookup es p nm
                        else Inl (RuntimeError (''Identifier can not be found: '' @ nm)))
           | None \<Rightarrow> Inl (RuntimeError (''Identifier can not be found: '' @ nm))))"

declare lookup.simps [simp del]

definition get :: "nat \<Rightarrow> string \<Rightarrow> ('d, 'd value) M" where
  "get a nm = (\<lambda>s. Some (lookup (envs s) a nm, s))"

fun assign_in ::
  "'d environment list \<Rightarrow> nat \<Rightarrow> string \<Rightarrow> 'd value \<Rightarrow> error + 'd environment list" where
  "assign_in es a nm v =
     (case map_of (variables (es ! a)) nm of
        Some _ \<Rightarrow>
          (if map_of (mutable (es ! a)) nm \<noteq> Some True
           then Inl (RuntimeError (''Variable '' @ [CHR 0x27] @ nm @ [CHR 0x27]
                                    @ '' is not mutable''))
           else Inr (es[a := (es ! a)\<lparr>variables := dict_set nm v (variables (es ! a))\<rparr>]))
      | None \<Rightarrow>
          (case parent (es ! a) of
             Some p \<Rightarrow> (if p < a then assign_in es p nm v
                        else Inl (RuntimeError (''Identifier can not be found: '' @ nm)))
           | None \<Rightarrow> Inl (RuntimeError (''Identifier can not be found: '' @ nm))))"

declare assign_in.simps [simp del]

definition assign :: "nat \<Rightarrow> string \<Rightarrow> 'd value \<Rightarrow> ('d, unit) M" where
  "assign a nm v =
     (\<lambda>s. case assign_in (envs s) a nm v of
             Inl e \<Rightarrow> Some (Inl e, s)
           | Inr es \<Rightarrow> Some (Inr (), s\<lparr>envs := es\<rparr>))"

definition append_output :: "string \<Rightarrow> ('d, unit) M" where
  "append_output t = (\<lambda>s. Some (Inr (), s\<lparr>output_buffer := output_buffer s @ [t]\<rparr>))"

section \<open>The evaluator\<close>

text \<open>
  \<open>evaluate_expression\<close> and \<open>ElfBuiltinFunction.call\<close> call each other without bound
  (a program may not terminate), so both are defined by recursion on a fuel. Every
  function below takes the two of them at the fuel that is left, as \<open>ev\<close> and \<open>cl\<close>.
\<close>

type_synonym 'd evaluate = "expr \<Rightarrow> nat \<Rightarrow> ('d, 'd value) M"
type_synonym 'd caller = "'d value \<Rightarrow> 'd value list \<Rightarrow> ('d, 'd value) M"

definition evaluate_statement :: "'d evaluate \<Rightarrow> stmt \<Rightarrow> nat \<Rightarrow> ('d, 'd value) M" where
  "evaluate_statement ev st env =
     (case st of SExpression e \<Rightarrow> ev e env | SComment _ \<Rightarrow> returnM ElfNil)"

fun evaluate_block_from ::
  "'d evaluate \<Rightarrow> 'd value \<Rightarrow> stmt list \<Rightarrow> nat \<Rightarrow> ('d, 'd value) M" where
  "evaluate_block_from ev result [] env = returnM result"
| "evaluate_block_from ev result (st # sts) env =
     bindM (evaluate_statement ev st env) (\<lambda>r. evaluate_block_from ev r sts env)"

definition evaluate_block :: "'d evaluate \<Rightarrow> stmt list \<Rightarrow> nat \<Rightarrow> ('d, 'd value) M" where
  "evaluate_block ev block env = evaluate_block_from ev ElfNil block env"

subsection \<open>\<open>call_user_function\<close>\<close>

text \<open>\<open>for i, arg in enumerate(args): closure[func.parameters[i]] = arg\<close>\<close>

definition bind_args ::
  "string list \<Rightarrow> 'd value list \<Rightarrow> (string \<times> 'd value) list \<Rightarrow> (string \<times> 'd value) list" where
  "bind_args params args closure =
     foldl (\<lambda>c pa. dict_set (fst pa) (snd pa) c) closure (zip params args)"

fun define_all :: "nat \<Rightarrow> (string \<times> 'd value) list \<Rightarrow> ('d, unit) M" where
  "define_all a [] = returnM ()"
| "define_all a (p # ps) = bindM (env_define a (fst p) (snd p) False) (\<lambda>_. define_all a ps)"

definition call_user_function ::
  "'d evaluate \<Rightarrow> 'd value \<Rightarrow> 'd value list \<Rightarrow> nat \<Rightarrow> ('d, 'd value) M" where
  "call_user_function ev fn args env =
     (if length args < length (parameters fn)
      then
        let remaining_params = drop (length args) (parameters fn)
        in (case closure_env fn of
              EnvRef _ \<Rightarrow>
                returnM (ElfFunction remaining_params (body fn)
                           (DictClosure (bind_args (parameters fn) args [])))
            | DictClosure c \<Rightarrow>
                returnM (ElfFunction remaining_params (body fn)
                           (DictClosure (bind_args (parameters fn) args c))))
      else
        bindM (case closure_env fn of
                 EnvRef c \<Rightarrow> new_environment (Some c)
               | DictClosure c \<Rightarrow>
                   bindM (new_environment (Some env)) (\<lambda>func_env.
                   bindM (define_all func_env c) (\<lambda>_. returnM func_env)))
          (\<lambda>func_env.
             bindM (define_all func_env (zip (parameters fn) args)) (\<lambda>_.
               evaluate_block ev (body fn) func_env)))"

subsection \<open>Builtin functions that call functions\<close>

text \<open>
  \<open>f.call(*args) if isinstance(f, ElfBuiltinFunction) else
  self.call_user_function(f, args, self.global_env)\<close>
\<close>

definition apply_function ::
  "'d evaluate \<Rightarrow> 'd caller \<Rightarrow> 'd value \<Rightarrow> 'd value list \<Rightarrow> ('d, 'd value) M" where
  "apply_function ev cl fn args =
     (if is_BuiltinFunction fn then cl fn args else call_user_function ev fn args global_env)"

definition builtin_puts :: "('d, 'f) pylib \<Rightarrow> 'd value list \<Rightarrow> ('d, 'd value) M" where
  "builtin_puts L args =
     bindM (mapM (\<lambda>arg. bindM (liftE (repr_value L arg)) (\<lambda>t. append_output (t @ '' '')))
              args) (\<lambda>_.
     bindM (append_output [CHR 0x0A]) (\<lambda>_. returnM ElfNil))"

definition builtin_map ::
  "'d evaluate \<Rightarrow> 'd caller \<Rightarrow> 'd value \<Rightarrow> 'd value \<Rightarrow> ('d, 'd value) M" where
  "builtin_map ev cl fn lst =
     (if \<not> is_List lst
      then raiseM (RuntimeError (''Unexpected argument: map('' @ type_name fn @ '', ''
                                  @ type_name lst @ '')''))
      else if \<not> is_callable fn
      then raiseM (RuntimeError (''Unexpected argument: map('' @ type_name fn @ '', List)''))
      else bindM (mapM (\<lambda>item. apply_function ev cl fn [item]) (items lst))
             (\<lambda>result_items. returnM (ElfList result_items)))"

definition builtin_filter ::
  "('d, 'f) pylib \<Rightarrow> 'd evaluate \<Rightarrow> 'd caller \<Rightarrow> 'd value \<Rightarrow> 'd value \<Rightarrow> ('d, 'd value) M" where
  "builtin_filter L ev cl predicate lst =
     (if \<not> is_List lst
      then raiseM (RuntimeError (''Unexpected argument: filter('' @ type_name predicate @ '', ''
                                  @ type_name lst @ '')''))
      else if \<not> is_callable predicate
      then raiseM (RuntimeError (''Unexpected argument: filter('' @ type_name predicate
                                  @ '', List)''))
      else bindM (mapM (\<lambda>item. bindM (apply_function ev cl predicate [item]) (\<lambda>result.
                          returnM (if is_truthy L result then [item] else [])))
                    (items lst))
             (\<lambda>kept. returnM (ElfList (concat kept))))"

fun fold_loop ::
  "'d evaluate \<Rightarrow> 'd caller \<Rightarrow> 'd value \<Rightarrow> 'd value \<Rightarrow> 'd value list \<Rightarrow> ('d, 'd value) M" where
  "fold_loop ev cl fn accumulator [] = returnM accumulator"
| "fold_loop ev cl fn accumulator (item # rest) =
     bindM (apply_function ev cl fn [accumulator, item]) (\<lambda>acc. fold_loop ev cl fn acc rest)"

definition builtin_fold ::
  "'d evaluate \<Rightarrow> 'd caller \<Rightarrow> 'd value \<Rightarrow> 'd value \<Rightarrow> 'd value \<Rightarrow> ('d, 'd value) M" where
  "builtin_fold ev cl initial fn lst =
     (if \<not> is_List lst
      then raiseM (RuntimeError (''Unexpected argument: fold('' @ type_name initial @ '', ''
                                  @ type_name fn @ '', '' @ type_name lst @ '')''))
      else if \<not> is_callable fn
      then raiseM (RuntimeError (''Unexpected argument: fold('' @ type_name initial @ '', ''
                                  @ type_name fn @ '', List)''))
      else fold_loop ev cl fn initial (items lst))"

subsection \<open>\<open>ElfBuiltinFunction.call\<close>\<close>

text \<open>
  A native function called with a number of arguments that it does not take raises
  Python's TypeError. \<open>py_take n xs\<close> is the slice \<open>xs[:n]\<close>.
\<close>

definition type_error :: "('d, 'a) M" where
  "type_error = raiseM (PyException ''TypeError'')"

definition args1 :: "'d value list \<Rightarrow> ('d value \<Rightarrow> ('d, 'a) M) \<Rightarrow> ('d, 'a) M" where
  "args1 xs f = (case xs of [a] \<Rightarrow> f a | _ \<Rightarrow> type_error)"

definition args2 :: "'d value list \<Rightarrow> ('d value \<Rightarrow> 'd value \<Rightarrow> ('d, 'a) M) \<Rightarrow> ('d, 'a) M" where
  "args2 xs f = (case xs of [a, b] \<Rightarrow> f a b | _ \<Rightarrow> type_error)"

definition args3 ::
  "'d value list \<Rightarrow> ('d value \<Rightarrow> 'd value \<Rightarrow> 'd value \<Rightarrow> ('d, 'a) M) \<Rightarrow> ('d, 'a) M" where
  "args3 xs f = (case xs of [a, b, c] \<Rightarrow> f a b c | _ \<Rightarrow> type_error)"

definition py_take :: "int \<Rightarrow> 'a list \<Rightarrow> 'a list" where
  "py_take n xs = (if 0 \<le> n then take (nat n) xs else take (length xs - nat (- n)) xs)"

text \<open>
  \<open>call\<close>: the partial arguments are put in front; a variadic function (arity -1) gets
  all of them; with fewer arguments than the arity the result is a new partial builtin;
  otherwise the native function gets the first \<open>arity\<close> arguments. The native function
  \<open>composed_call\<close> applies \<open>left\<close> and then \<open>right\<close>; when one of them is a builtin, this
  is \<open>call\<close> again, on a component of the composed value.
\<close>

fun call ::
  "('d, 'f) pylib \<Rightarrow> 'd evaluate \<Rightarrow> 'd caller \<Rightarrow> 'd value \<Rightarrow> 'd value list \<Rightarrow> ('d, 'd value) M"
where
  "call L ev cl v args =
     (case v of
        ElfBuiltinFunction nm f ar pargs \<Rightarrow>
          (let all_args = pargs @ args
           in if ar \<noteq> - 1 \<and> int (length all_args) < ar
              then returnM (ElfBuiltinFunction nm f ar all_args)
              else
                let xs = (if ar = - 1 then all_args else py_take ar all_args)
                in (case f of
                      Composed left right \<Rightarrow>
                        bindM (if is_BuiltinFunction left then call L ev cl left xs
                               else call_user_function ev left xs global_env)
                          (\<lambda>intermediate.
                             if is_BuiltinFunction right then call L ev cl right [intermediate]
                             else call_user_function ev right [intermediate] global_env)
                    | Puts \<Rightarrow> builtin_puts L xs
                    | Push \<Rightarrow> args2 xs (\<lambda>item c. liftE (builtin_push L item c))
                    | Assoc \<Rightarrow> args3 xs (\<lambda>k x d. liftE (builtin_assoc L k x d))
                    | First \<Rightarrow> args1 xs (\<lambda>c. returnM (builtin_first c))
                    | Rest \<Rightarrow> args1 xs (\<lambda>c. returnM (builtin_rest c))
                    | Size \<Rightarrow> args1 xs (\<lambda>c. returnM (builtin_size c))
                    | Map \<Rightarrow> args2 xs (builtin_map ev cl)
                    | Filter \<Rightarrow> args2 xs (builtin_filter L ev cl)
                    | Fold \<Rightarrow> args3 xs (builtin_fold ev cl)
                    | Add \<Rightarrow> args2 xs (\<lambda>l r. liftE (add_values L l r))
                    | Subtract \<Rightarrow> args2 xs (\<lambda>l r. liftE (subtract_values L l r))
                    | Multiply \<Rightarrow> args2 xs (\<lambda>l r. liftE (multiply_values L l r))
                    | Divide \<Rightarrow> args2 xs (\<lambda>l r. liftE (divide_values L l r))))
      | _ \<Rightarrow> type_error)"

declare call.simps [simp del]

subsection \<open>\<open>evaluate_expression\<close>\<close>

definition thread_value ::
  "('d, 'f) pylib \<Rightarrow> 'd evaluate \<Rightarrow> 'd caller \<Rightarrow> 'd value \<Rightarrow> 'd value \<Rightarrow> ('d, 'd value) M"
where
  "thread_value L ev cl v fn =
     (if \<not> is_callable fn
      then raiseM (RuntimeError (''Cannot thread into non-function: '' @ type_name fn))
      else if is_BuiltinFunction fn then call L ev cl fn [v]
      else call_user_function ev fn [v] global_env)"

fun thread_loop ::
  "('d, 'f) pylib \<Rightarrow> 'd evaluate \<Rightarrow> 'd caller \<Rightarrow> 'd value \<Rightarrow> 'd value list
   \<Rightarrow> ('d, 'd value) M" where
  "thread_loop L ev cl v [] = returnM v"
| "thread_loop L ev cl v (fn # fns) =
     bindM (thread_value L ev cl v fn) (\<lambda>v'. thread_loop L ev cl v' fns)"

fun compose_loop :: "'d value \<Rightarrow> 'd value list \<Rightarrow> error + 'd value" where
  "compose_loop result [] = Inr result"
| "compose_loop result (fn # fns) =
     bindE (compose_functions result fn) (\<lambda>r. compose_loop r fns)"

definition evaluate_infix ::
  "('d, 'f) pylib \<Rightarrow> 'd evaluate \<Rightarrow> 'd caller \<Rightarrow> string \<Rightarrow> expr \<Rightarrow> expr \<Rightarrow> nat
   \<Rightarrow> ('d, 'd value) M" where
  "evaluate_infix L ev cl operator l r env =
     bindM (ev l env) (\<lambda>left.
     bindM (ev r env) (\<lambda>right.
       if operator = ''+'' then liftE (add_values L left right)
       else if operator = ''-'' then liftE (subtract_values L left right)
       else if operator = ''*'' then liftE (multiply_values L left right)
       else if operator = ''/'' then liftE (divide_values L left right)
       else if operator = ''=='' then returnM (ElfBoolean (values_equal L left right))
       else if operator = ''!='' then returnM (ElfBoolean (\<not> values_equal L left right))
       else if operator = ''>''
       then liftE (bindE (compare_values L left right) (\<lambda>c. Inr (ElfBoolean (c > 0))))
       else if operator = ''<''
       then liftE (bindE (compare_values L left right) (\<lambda>c. Inr (ElfBoolean (c < 0))))
       else if operator = ''>=''
       then liftE (bindE (compare_values L left right) (\<lambda>c. Inr (ElfBoolean (c \<ge> 0))))
       else if operator = ''<=''
       then liftE (bindE (compare_values L left right) (\<lambda>c. Inr (ElfBoolean (c \<le> 0))))
       else if operator = ''&&''
       then returnM (ElfBoolean (is_truthy L left \<and> is_truthy L right))
       else if operator = ''||''
       then returnM (ElfBoolean (is_truthy L left \<or> is_truthy L right))
       else if operator = ''>>'' then liftE (compose_functions left right)
       else if operator = ''|>'' then thread_value L ev cl left right
       else raiseM (RuntimeError (''Unknown operator: '' @ operator))))"

definition evaluate_prefix ::
  "('d, 'f) pylib \<Rightarrow> 'd evaluate \<Rightarrow> string \<Rightarrow> expr \<Rightarrow> nat \<Rightarrow> ('d, 'd value) M" where
  "evaluate_prefix L ev operator oe env =
     bindM (ev oe env) (\<lambda>operand.
       if operator = ''-''
       then (if is_Integer operand then returnM (ElfInteger (- int_value operand))
             else if is_Decimal operand
             then liftE (bindE (dec_neg L (dec_value operand)) (ElfDecimal_of_Decimal L))
             else raiseM (RuntimeError (''Unsupported operation: -'' @ type_name operand)))
       else raiseM (RuntimeError (''Unknown prefix operator: '' @ operator)))"

text \<open>
  One step of \<open>evaluate_expression\<close>: the branch of the expression's type, with the
  sub-expressions evaluated by \<open>ev\<close>.
\<close>

definition expression ::
  "('d, 'f) pylib \<Rightarrow> 'd evaluate \<Rightarrow> 'd caller \<Rightarrow> expr \<Rightarrow> nat \<Rightarrow> ('d, 'd value) M" where
  "expression L ev cl e env =
     (case e of
        AInteger v \<Rightarrow>
          liftE (bindE (py_int L (replace_chr CHR ''_'' [] v)) (\<lambda>i. Inr (ElfInteger i)))
      | ADecimal v \<Rightarrow> liftE (ElfDecimal_of_str L v)
      | AString v \<Rightarrow> returnM (ElfString v)
      | ABoolean v \<Rightarrow> returnM (ElfBoolean v)
      | ANil \<Rightarrow> returnM ElfNil
      | AIdentifier nm \<Rightarrow> get env nm
      | ALet nm ve \<Rightarrow>
          bindM (ev ve env) (\<lambda>v. bindM (env_define env nm v False) (\<lambda>_. returnM v))
      | AMutableLet nm ve \<Rightarrow>
          bindM (ev ve env) (\<lambda>v. bindM (env_define env nm v True) (\<lambda>_. returnM v))
      | ACall fe aes \<Rightarrow>
          bindM (ev fe env) (\<lambda>fn.
          bindM (mapM (\<lambda>arg. ev arg env) aes) (\<lambda>args.
            if is_BuiltinFunction fn then call L ev cl fn args
            else if is_Function fn then call_user_function ev fn args env
            else raiseM (RuntimeError (''Expected a Function, found: '' @ type_name fn))))
      | AInfix operator l r \<Rightarrow> evaluate_infix L ev cl operator l r env
      | APrefix operator oe \<Rightarrow> evaluate_prefix L ev operator oe env
      | AAssignment nm ve \<Rightarrow>
          bindM (ev ve env) (\<lambda>v. bindM (assign env nm v) (\<lambda>_. returnM v))
      | AList ies \<Rightarrow>
          bindM (mapM (\<lambda>item. ev item env) ies) (\<lambda>xs. returnM (ElfList xs))
      | ASet ies \<Rightarrow>
          bindM (mapM (\<lambda>item. ev item env) ies) (\<lambda>xs.
            if list_ex is_Dictionary xs
            then raiseM (RuntimeError ''Unable to include a Dictionary within a Set'')
            else returnM (ElfSet xs))
      | ADictionary pes \<Rightarrow>
          bindM (mapM (\<lambda>pair.
                   bindM (ev (fst pair) env) (\<lambda>key.
                   bindM (ev (snd pair) env) (\<lambda>v.
                     if is_Dictionary key
                     then raiseM (RuntimeError ''Unable to use a Dictionary as a Dictionary key'')
                     else returnM (key, v)))) pes)
            (\<lambda>ps. returnM (ElfDictionary ps))
      | AFunction param_names b \<Rightarrow> returnM (ElfFunction param_names b (EnvRef env))
      | AIf ce consequence alternative \<Rightarrow>
          bindM (ev ce env) (\<lambda>condition.
            if is_truthy L condition then evaluate_block ev consequence env
            else (case alternative of
                    Some alt \<Rightarrow> evaluate_block ev alt env
                  | None \<Rightarrow> returnM ElfNil))
      | AIndex le ie \<Rightarrow>
          bindM (ev le env) (\<lambda>target.
          bindM (ev ie env) (\<lambda>index. liftE (index_value L target index)))
      | AFunctionComposition fes \<Rightarrow>
          bindM (mapM (\<lambda>fe. ev fe env) fes) (\<lambda>functions.
            if length functions < 2
            then raiseM (RuntimeError ''Function composition requires at least 2 functions'')
            else liftE (compose_loop (hd functions) (tl functions)))
      | AFunctionThread ie fes \<Rightarrow>
          bindM (ev ie env) (\<lambda>v.
          bindM (mapM (\<lambda>fe. ev fe env) fes) (\<lambda>functions.
            thread_loop L ev cl v functions)))"

text \<open>
  The recursion on the fuel: with none left there is no result; otherwise one step, with
  the recursive calls at the fuel that is left.
\<close>

primrec interp :: "('d, 'f) pylib \<Rightarrow> nat \<Rightarrow> 'd evaluate \<times> 'd caller" where
  "interp L 0 = ((\<lambda>e env s. None), (\<lambda>v args s. None))"
| "interp L (Suc n) =
     (expression L (fst (interp L n)) (snd (interp L n)),
      call L (fst (interp L n)) (snd (interp L n)))"

definition evaluate_expression :: "('d, 'f) pylib \<Rightarrow> nat \<Rightarrow> 'd evaluate" where
  "evaluate_expression L n = fst (interp L n)"

definition builtin_call :: "('d, 'f) pylib \<Rightarrow> nat \<Rightarrow> 'd caller" where
  "builtin_call L n = snd (interp L n)"

subsection \<open>\<open>evaluate_program\<close>\<close>

text \<open>
  \<open>Evaluator.__init__\<close> creates the global environment with the builtin functions; the
  arity of a builtin is the number of parameters of its method, and -1 for \<open>puts\<close>.
\<close>

definition builtins :: "(string \<times> 'd value) list" where
  "builtins =
     [(''puts'', ElfBuiltinFunction ''puts'' Puts (- 1) []),
      (''push'', ElfBuiltinFunction ''push'' Push 2 []),
      (''assoc'', ElfBuiltinFunction ''assoc'' Assoc 3 []),
      (''first'', ElfBuiltinFunction ''first'' First 1 []),
      (''rest'', ElfBuiltinFunction ''rest'' Rest 1 []),
      (''size'', ElfBuiltinFunction ''size'' Size 1 []),
      (''map'', ElfBuiltinFunction ''map'' Map 2 []),
      (''filter'', ElfBuiltinFunction ''filter'' Filter 2 []),
      (''fold'', ElfBuiltinFunction ''fold'' Fold 3 []),
      (''+'', ElfBuiltinFunction ''+'' Add 2 []),
      (''-'', ElfBuiltinFunction ''-'' Subtract 2 []),
      (''*'', ElfBuiltinFunction ''*'' Multiply 2 []),
      (''/'', ElfBuiltinFunction ''/'' Divide 2 [])]"

definition initial_state :: "'d state" where
  "initial_state =
     \<lparr>envs = [\<lparr>parent = None, variables = builtins,
               mutable =
                 map (\<lambda>p. (fst p, False)) (builtins :: (string \<times> 'd value) list)\<rparr>],
      output_buffer = []\<rparr>"

text \<open>The loop of \<open>Evaluator.evaluate_program\<close>, which keeps \<open>last_result\<close>.\<close>

fun run_statements :: "'d evaluate \<Rightarrow> 'd value \<Rightarrow> stmt list \<Rightarrow> ('d, 'd value) M" where
  "run_statements ev last_result [] = returnM last_result"
| "run_statements ev last_result (st # sts) =
     bindM (evaluate_statement ev st global_env) (\<lambda>result.
       run_statements ev (case st of SComment _ \<Rightarrow> last_result | _ \<Rightarrow> result) sts)"

text \<open>
  \<open>Evaluator.evaluate_program\<close> catches the evaluator's own \<open>RuntimeError\<close> and
  appends \<open>[Error] message\<close> to the buffer; any other exception leaves the method.
  The result is \<open>None\<close> when the fuel does not suffice.
\<close>

definition Evaluator_evaluate_program ::
  "('d, 'f) pylib \<Rightarrow> nat \<Rightarrow> stmt list \<Rightarrow> (error + string) option" where
  "Evaluator_evaluate_program L fuel ast =
     (case bindM (run_statements (evaluate_expression L fuel) ElfNil ast) (\<lambda>last_result.
             bindM (liftE (repr_value L last_result)) append_output)
             (initial_state :: 'd state) of
        None \<Rightarrow> None
      | Some (Inr _, s) \<Rightarrow> Some (Inr (concat (output_buffer s)))
      | Some (Inl (RuntimeError msg), s) \<Rightarrow>
          Some (Inr (concat (output_buffer s @ [''[Error] '' @ msg])))
      | Some (Inl (PyException msg), s) \<Rightarrow> Some (Inl (PyException msg)))"

section \<open>\<open>push\<close>, \<open>assoc\<close> and \<open>+\<close> on Python's list objects\<close>

text \<open>
  The evaluator above treats a collection as the list of its items. In the source the
  \<open>items\<close> of an \<open>ElfList\<close>, \<open>ElfSet\<close> or \<open>ElfDictionary\<close> is a Python list object,
  which statements such as \<open>append\<close> change in place and which several values may
  share. To show that the three operations never change the list object of an operand,
  they are modelled once more, statement by statement, on a store of list objects
  addressed by position. A collection is a reference to its list object; the elements of
  a list object, and all other values, are values as before.
\<close>

datatype 'd cell = Items "'d value list" | Pairs "('d value \<times> 'd value) list"

datatype 'd ref = RList nat | RSet nat | RDictionary nat | RAtom "'d value"

type_synonym 'd heap = "'d cell list"

definition items_at :: "'d heap \<Rightarrow> nat \<Rightarrow> 'd value list" where
  "items_at h a = (case h ! a of Items xs \<Rightarrow> xs | Pairs _ \<Rightarrow> [])"

definition pairs_at :: "'d heap \<Rightarrow> nat \<Rightarrow> ('d value \<times> 'd value) list" where
  "pairs_at h a = (case h ! a of Pairs ps \<Rightarrow> ps | Items _ \<Rightarrow> [])"

text \<open>The value that a reference stands for in a store.\<close>

fun deref :: "'d heap \<Rightarrow> 'd ref \<Rightarrow> 'd value" where
  "deref h (RList a) = ElfList (items_at h a)"
| "deref h (RSet a) = ElfSet (items_at h a)"
| "deref h (RDictionary a) = ElfDictionary (pairs_at h a)"
| "deref h (RAtom v) = v"

text \<open>
  A new list object (\<open>xs + ys\<close>, \<open>xs[:]\<close>, \<open>[]\<close>) takes the next free address;
  \<open>xs.append(x)\<close> and \<open>xs[i] = x\<close> change the object at the address of \<open>xs\<close>.
\<close>

definition alloc :: "'d heap \<Rightarrow> 'd cell \<Rightarrow> nat \<times> 'd heap" where
  "alloc h c = (length h, h @ [c])"

definition append_item :: "'d heap \<Rightarrow> nat \<Rightarrow> 'd value \<Rightarrow> 'd heap" where
  "append_item h a x = h[a := Items (items_at h a @ [x])]"

definition append_pair :: "'d heap \<Rightarrow> nat \<Rightarrow> 'd value \<times> 'd value \<Rightarrow> 'd heap" where
  "append_pair h a p = h[a := Pairs (pairs_at h a @ [p])]"

definition set_pair :: "'d heap \<Rightarrow> nat \<Rightarrow> nat \<Rightarrow> 'd value \<times> 'd value \<Rightarrow> 'd heap" where
  "set_pair h a i p = h[a := Pairs ((pairs_at h a)[i := p])]"

definition builtin_push_heap ::
  "('d, 'f) pylib \<Rightarrow> 'd value \<Rightarrow> 'd ref \<Rightarrow> 'd heap \<Rightarrow> (error + 'd ref) \<times> 'd heap" where
  "builtin_push_heap L item collection h =
     (case collection of
        RList a \<Rightarrow>
          (let (new_items, h1) = alloc h (Items (items_at h a @ [item]))
           in (Inr (RList new_items), h1))
      | RSet a \<Rightarrow>
          (let (new_items, h1) = alloc h (Items (items_at h a))
           in if list_ex (\<lambda>existing. values_equal L existing item) (items_at h1 new_items)
              then (Inr (RSet new_items), h1)
              else (Inr (RSet new_items), append_item h1 new_items item))
      | _ \<Rightarrow> (Inl (RuntimeError (''Cannot push to '' @ type_name (deref h collection))), h))"

text \<open>The loop of \<open>builtin_assoc\<close>: it appends to \<open>new_pairs\<close> and sets \<open>key_found\<close>.\<close>

fun assoc_loop ::
  "('d, 'f) pylib \<Rightarrow> 'd value \<Rightarrow> 'd value \<Rightarrow> ('d value \<times> 'd value) list \<Rightarrow> nat \<Rightarrow> bool
   \<Rightarrow> 'd heap \<Rightarrow> bool \<times> 'd heap" where
  "assoc_loop L key val [] new_pairs key_found h = (key_found, h)"
| "assoc_loop L key val (p # ps) new_pairs key_found h =
     (if values_equal L (fst p) key
      then assoc_loop L key val ps new_pairs True (append_pair h new_pairs (key, val))
      else assoc_loop L key val ps new_pairs key_found (append_pair h new_pairs p))"

definition builtin_assoc_heap ::
  "('d, 'f) pylib \<Rightarrow> 'd value \<Rightarrow> 'd value \<Rightarrow> 'd ref \<Rightarrow> 'd heap
   \<Rightarrow> (error + 'd ref) \<times> 'd heap" where
  "builtin_assoc_heap L key val dictionary h =
     (case dictionary of
        RDictionary a \<Rightarrow>
          (let (new_pairs, h1) = alloc h (Pairs []);
               (key_found, h2) = assoc_loop L key val (pairs_at h1 a) new_pairs False h1;
               h3 = (if \<not> key_found then append_pair h2 new_pairs (key, val) else h2)
           in (Inr (RDictionary new_pairs), h3))
      | _ \<Rightarrow> (Inl (RuntimeError (''Cannot assoc to '' @ type_name (deref h dictionary))), h))"

text \<open>The loops of the Set and Dictionary branches of \<open>add_values\<close>.\<close>

fun union_loop ::
  "('d, 'f) pylib \<Rightarrow> 'd value list \<Rightarrow> nat \<Rightarrow> 'd heap \<Rightarrow> 'd heap" where
  "union_loop L [] result_items h = h"
| "union_loop L (item # rest) result_items h =
     (if list_ex (\<lambda>existing. values_equal L existing item) (items_at h result_items)
      then union_loop L rest result_items h
      else union_loop L rest result_items (append_item h result_items item))"

text \<open>The index of the first pair whose key equals \<open>k\<close>.\<close>

fun find_key :: "('d, 'f) pylib \<Rightarrow> 'd value \<Rightarrow> ('d value \<times> 'd value) list \<Rightarrow> nat option" where
  "find_key L k [] = None"
| "find_key L k (p # ps) =
     (if values_equal L (fst p) k then Some 0 else map_option Suc (find_key L k ps))"

fun merge_loop ::
  "('d, 'f) pylib \<Rightarrow> ('d value \<times> 'd value) list \<Rightarrow> nat \<Rightarrow> 'd heap \<Rightarrow> 'd heap" where
  "merge_loop L [] result_pairs h = h"
| "merge_loop L (r # rest) result_pairs h =
     (case find_key L (fst r) (pairs_at h result_pairs) of
        Some i \<Rightarrow> merge_loop L rest result_pairs (set_pair h result_pairs i r)
      | None \<Rightarrow> merge_loop L rest result_pairs (append_pair h result_pairs r))"

text \<open>
  \<open>add_values\<close>: the three branches that build a collection; the other branches build
  no list object and are those of \<open>add_values\<close> above.
\<close>

definition add_values_heap ::
  "('d, 'f) pylib \<Rightarrow> 'd ref \<Rightarrow> 'd ref \<Rightarrow> 'd heap \<Rightarrow> (error + 'd ref) \<times> 'd heap" where
  "add_values_heap L left right h =
     (case (left, right) of
        (RList a, RList b) \<Rightarrow>
          (let (n, h1) = alloc h (Items (items_at h a @ items_at h b))
           in (Inr (RList n), h1))
      | (RSet a, RSet b) \<Rightarrow>
          (let (result_items, h1) = alloc h (Items (items_at h a))
           in (Inr (RSet result_items), union_loop L (items_at h1 b) result_items h1))
      | (RDictionary a, RDictionary b) \<Rightarrow>
          (let (result_pairs, h1) = alloc h (Pairs (pairs_at h a))
           in (Inr (RDictionary result_pairs), merge_loop L (pairs_at h1 b) result_pairs h1))
      | _ \<Rightarrow> (map_sum id RAtom (add_values L (deref h left) (deref h right)), h))"

text \<open>
  A reference is valid in a store that holds its list object; a value that is not a
  reference is no collection. \<open>ref_addr\<close> is the address of a collection's list object.
\<close>

fun ref_addr :: "'d ref \<Rightarrow> nat option" where
  "ref_addr (RList a) = Some a"
| "ref_addr (RSet a) = Some a"
| "ref_addr (RDictionary a) = Some a"
| "ref_addr (RAtom v) = None"

fun valid_ref :: "'d heap \<Rightarrow> 'd ref \<Rightarrow> bool" where
  "valid_ref h (RList a) = (a < length h)"
| "valid_ref h (RSet a) = (a < length h)"
| "valid_ref h (RDictionary a) = (a < length h)"
| "valid_ref h (RAtom v) = (\<not> is_List v \<and> \<not> is_Set v \<and> \<not> is_Dictionary v)"

section \<open>The order of the printed form\<close>

text \<open>
  What the sort of the printed form needs from the library's comparison of floats, on
  the floats \<open>fs\<close> that occur as keys: \<open>&lt;\<close> is asymmetric, a float between two others
  is ordered against one of them, and equal floats are not ordered. Python's floats
  other than NaN are such.
\<close>

definition float_order_ok :: "('d, 'f) pylib \<Rightarrow> 'f list \<Rightarrow> bool" where
  "float_order_ok L fs =
     (\<forall>x\<in>set fs. \<forall>y\<in>set fs. \<forall>z\<in>set fs.
        \<not> (float_lt L x y \<and> float_lt L y x)
      \<and> (float_lt L x z \<longrightarrow> float_lt L x y \<or> float_lt L y z)
      \<and> (float_eq L x y \<longrightarrow> \<not> float_lt L x y))"

fun float_keys :: "(nat \<times> 'f keyval) list \<Rightarrow> 'f list" where
  "float_keys [] = []"
| "float_keys ((r, VFloat x) # ks) = x # float_keys ks"
| "float_keys (_ # ks) = float_keys ks"

text \<open>The keys of a list of values, as \<open>sorted\<close> computes them before it sorts.\<close>

definition sort_keys :: "('d, 'f) pylib \<Rightarrow> 'd value list \<Rightarrow> error + (nat \<times> 'f keyval) list" where
  "sort_keys L xs = sequenceE (map (\<lambda>x. sort_key L x (repr_value L x)) xs)"

section \<open>Properties\<close>


lemma bit_length_2p53: "bit_length 9007199254740993 = 54"
  by (simp add: bit_length.simps)

lemma bit_length_1: "bit_length (Suc 0) = Suc 0"
  by (simp add: bit_length.simps)

lemma int_true_divide_2p53:
  "int_true_divide 9007199254740993 1 = Inr (False, 4503599627370496, 1)"
  by (simp add: int_true_divide_def Let_def bit_length_2p53 bit_length_1 round_half_even_def)

text \<open>
  Claim C4. Integer division by zero raises \<open>Division by zero\<close>, and otherwise the
  quotient is meant to be truncated toward zero for all magnitudes. The code computes
  \<open>int(a / b)\<close> through a float, so beyond 53 bits the quotient is rounded: dividing
  9007199254740993 by 1 gives 9007199254740992.
\<close>

theorem divide_values_loses_precision:
  "divide_values L (ElfInteger 9007199254740993) (ElfInteger 1)
     = Inr (ElfInteger 9007199254740992)"
  by (simp add: divide_values_def int_true_divide_2p53 bindE_def int_of_float_def)



subsection \<open>Running the evaluator on a program\<close>

text \<open>One step of the recursion on the fuel, for an applied evaluator.\<close>

lemma ev_0: "evaluate_expression L 0 e env s = None"
  by (simp add: evaluate_expression_def)
lemma ev_Suc: "evaluate_expression L (Suc n) e env s
   = expression L (evaluate_expression L n) (builtin_call L n) e env s"
  by (simp add: evaluate_expression_def builtin_call_def)
lemma cl_Suc: "builtin_call L (Suc n) v args s
   = call L (evaluate_expression L n) (builtin_call L n) v args s"
  by (simp add: evaluate_expression_def builtin_call_def)
lemma ev_num: "evaluate_expression L (numeral k) e env s
   = expression L (evaluate_expression L (pred_numeral k)) (builtin_call L (pred_numeral k)) e env s"
  by (simp add: numeral_eq_Suc ev_Suc)
lemma cl_num: "builtin_call L (numeral k) v args s
   = call L (evaluate_expression L (pred_numeral k)) (builtin_call L (pred_numeral k)) v args s"
  by (simp add: numeral_eq_Suc cl_Suc)

lemmas run_simps = ev_0 ev_Suc cl_Suc ev_num cl_num Evaluator_evaluate_program_def
  expression_def bindM_def returnM_def raiseM_def liftE_def bindE_def evaluate_statement_def
  evaluate_block_def initial_state_def builtins_def global_env_def append_output_def
  evaluate_infix_def evaluate_prefix_def get_def env_define_def assign_def new_environment_def
  call_user_function_def bind_args_def lookup.simps assign_in.simps call.simps
  apply_function_def builtin_map_def builtin_filter_def builtin_fold_def builtin_puts_def
  args1_def args2_def args3_def py_take_def type_error_def thread_value_def is_callable_def
  add_values_def subtract_values_def multiply_values_def divide_values_def compare_values_def
  bool_diff_def is_numeric_def py_int_def is_ascii_digit_def digits_value_def replace_chr_def
  str_int_def str_nat.simps digit_char_def repr_string_def key_lt_def sorted_by_key_def
  index_value_def builtin_push_def builtin_assoc_def compose_functions_def str_callable_def

lemma fuel5: "5 + n = Suc (Suc (Suc (Suc (Suc n))))" by simp
lemma fuel3: "3 + n = Suc (Suc (Suc n))" by simp

subsection \<open>Partial application\<close>

text \<open>
  Claim C1. Calling a user function with fewer arguments than parameters is meant to
  give a function that, on the remaining arguments, returns what the full call returns,
  with the closure environment retained. \<open>call_user_function\<close> drops the closure
  environment of a function defined in an \<open>Environment\<close> (its TODO comment says so): in
  \<open>let make = |z| { |a, b| a + b + z }; let f = make(10);\<close> the call \<open>f(1, 2)\<close>
  prints 13, and \<open>f(1)(2)\<close> fails because \<open>z\<close> is no longer found.
\<close>

theorem partial_application_drops_closure:
  "Evaluator_evaluate_program L (5 + n)
     [SExpression (ALet ''make'' (AFunction [''z'']
        [SExpression (AFunction [''a'', ''b'']
           [SExpression (AInfix ''+'' (AInfix ''+'' (AIdentifier ''a'') (AIdentifier ''b''))
                          (AIdentifier ''z''))])])),
      SExpression (ALet ''f'' (ACall (AIdentifier ''make'') [AInteger ''10''])),
      SExpression (ACall (AIdentifier ''f'') [AInteger ''1'', AInteger ''2''])]
     = Some (Inr ''13'')
   \<and> Evaluator_evaluate_program L (5 + n)
     [SExpression (ALet ''make'' (AFunction [''z'']
        [SExpression (AFunction [''a'', ''b'']
           [SExpression (AInfix ''+'' (AInfix ''+'' (AIdentifier ''a'') (AIdentifier ''b''))
                          (AIdentifier ''z''))])])),
      SExpression (ALet ''f'' (ACall (AIdentifier ''make'') [AInteger ''10''])),
      SExpression (ACall (ACall (AIdentifier ''f'') [AInteger ''1'']) [AInteger ''2''])]
     = Some (Inr ''[Error] Identifier can not be found: z'')"
  unfolding fuel5 by (simp add: run_simps)

subsection \<open>Set and Dictionary literals\<close>

text \<open>
  Claim C2. A Set is meant to hold no two equal elements. The Set branch of
  \<open>evaluate_expression\<close> stores the evaluated items as they are: the program
  \<open>{ 3, 1, 2, 1 }\<close> prints \<open>{1, 1, 2, 3}\<close>.
\<close>

theorem set_literal_keeps_duplicates:
  "Evaluator_evaluate_program L (3 + n)
     [SExpression (ASet [AInteger ''3'', AInteger ''1'', AInteger ''2'', AInteger ''1''])]
   = Some (Inr ''{1, 1, 2, 3}'')"
  unfolding fuel3 by (simp add: run_simps)

text \<open>
  Claim C5. A Dictionary literal with two equal keys is meant to hold the key once, with
  the value written last. The Dictionary branch appends every pair: the program
  \<open>#{"a": 1, "a": 2}\<close> prints both pairs, and indexing it with \<open>"a"\<close> gives the
  value written first.
\<close>

theorem dictionary_literal_keeps_duplicate_keys:
  "Evaluator_evaluate_program L (3 + n)
     [SExpression (ADictionary [(AString ''a'', AInteger ''1''), (AString ''a'', AInteger ''2'')])]
   = Some (Inr ''#{\"a\": 1, \"a\": 2}'')
   \<and> Evaluator_evaluate_program L (3 + n)
     [SExpression (AIndex (ADictionary [(AString ''a'', AInteger ''1''),
                                        (AString ''a'', AInteger ''2'')]) (AString ''a''))]
   = Some (Inr ''1'')"
  unfolding fuel3 by (simp add: run_simps)

subsection \<open>Logical operators\<close>

text \<open>
  Claim C10. For \<open>&&\<close> and \<open>||\<close>, \<open>evaluate_infix\<close> evaluates the left and then the
  right operand before anything else: when the right operand raises, the expression
  raises the same error whatever the left operand is, and when both return, the result
  is the Boolean conjunction (disjunction) of their truthiness, in the state that the
  two evaluations leave.
\<close>

theorem logical_operators_evaluate_both_operands:
  assumes "operator = ''&&'' \<or> operator = ''||''"
    and "evaluate_expression L n a env s = Some (Inr left, s1)"
  shows "(evaluate_expression L n b env s1 = Some (Inl err, s2) \<longrightarrow>
            evaluate_expression L (Suc n) (AInfix operator a b) env s = Some (Inl err, s2))
       \<and> (evaluate_expression L n b env s1 = Some (Inr right, s2) \<longrightarrow>
            evaluate_expression L (Suc n) (AInfix operator a b) env s =
              Some (Inr (ElfBoolean (if operator = ''&&''
                                     then is_truthy L left \<and> is_truthy L right
                                     else is_truthy L left \<or> is_truthy L right)), s2))"
  using assms
  by (auto simp: ev_Suc expression_def evaluate_infix_def bindM_def returnM_def)

theorem logical_operators_evaluate_both_operands_witness:
  "\<forall>L :: (unit, unit) pylib.
     (''&&'' = ''&&'' \<or> ''&&'' = ''||'')
   \<and> evaluate_expression L 2 (ABoolean False) 0 initial_state
       = Some (Inr (ElfBoolean False), initial_state)
   \<and> evaluate_expression L 2 (AInfix ''/'' (AInteger ''1'') (AInteger ''0'')) 0 initial_state
       = Some (Inl (RuntimeError ''Division by zero''), initial_state)
   \<and> evaluate_expression L 3
         (AInfix ''&&'' (ABoolean False) (AInfix ''/'' (AInteger ''1'') (AInteger ''0'')))
         0 initial_state
       = Some (Inl (RuntimeError ''Division by zero''), initial_state)
   \<and> evaluate_expression L 2 (AInteger ''2'') 0 initial_state
       = Some (Inr (ElfInteger 2), initial_state)
   \<and> evaluate_expression L 3 (AInfix ''&&'' (ABoolean False) (AInteger ''2'')) 0 initial_state
       = Some (Inr (ElfBoolean False), initial_state)"
proof
  fix L :: "(unit, unit) pylib"
  let ?s = "initial_state :: unit state"
  have h0: "''&&'' = ''&&'' \<or> ''&&'' = ''||''" by simp
  have h1: "evaluate_expression L 2 (ABoolean False) 0 ?s = Some (Inr (ElfBoolean False), ?s)"
    by (simp add: ev_num ev_Suc expression_def returnM_def)
  have h2: "evaluate_expression L 2 (AInfix ''/'' (AInteger ''1'') (AInteger ''0'')) 0 ?s
       = Some (Inl (RuntimeError ''Division by zero''), ?s)"
    by (simp add: run_simps)
  have h3: "evaluate_expression L 2 (AInteger ''2'') 0 ?s = Some (Inr (ElfInteger 2), ?s)"
    by (simp add: run_simps)
  have three: "(3::nat) = Suc 2" by simp
  show "(''&&'' = ''&&'' \<or> ''&&'' = ''||'')
   \<and> evaluate_expression L 2 (ABoolean False) 0 ?s = Some (Inr (ElfBoolean False), ?s)
   \<and> evaluate_expression L 2 (AInfix ''/'' (AInteger ''1'') (AInteger ''0'')) 0 ?s
       = Some (Inl (RuntimeError ''Division by zero''), ?s)
   \<and> evaluate_expression L 3
         (AInfix ''&&'' (ABoolean False) (AInfix ''/'' (AInteger ''1'') (AInteger ''0''))) 0 ?s
       = Some (Inl (RuntimeError ''Division by zero''), ?s)
   \<and> evaluate_expression L 2 (AInteger ''2'') 0 ?s = Some (Inr (ElfInteger 2), ?s)
   \<and> evaluate_expression L 3 (AInfix ''&&'' (ABoolean False) (AInteger ''2'')) 0 ?s
       = Some (Inr (ElfBoolean False), ?s)"
    unfolding three
    using h0 h1 h2 h3
      logical_operators_evaluate_both_operands [OF h0 h1,
        of "AInfix ''/'' (AInteger ''1'') (AInteger ''0'')" "RuntimeError ''Division by zero''" ?s]
      logical_operators_evaluate_both_operands [OF h0 h1, of "AInteger ''2''" _ ?s "ElfInteger 2"]
    by simp
qed

subsection \<open>Composition\<close>









subsection \<open>Operands are not mutated\<close>

lemma items_at_append_item:
  "n < length h \<Longrightarrow> items_at (append_item h n x) n = items_at h n @ [x]"
  by (simp add: items_at_def append_item_def)

lemma pairs_at_append_pair:
  "n < length h \<Longrightarrow> pairs_at (append_pair h n p) n = pairs_at h n @ [p]"
  by (simp add: pairs_at_def append_pair_def)

lemma pairs_at_set_pair:
  "n < length h \<Longrightarrow> pairs_at (set_pair h n i p) n = (pairs_at h n)[i := p]"
  by (simp add: pairs_at_def set_pair_def)

lemma length_heap_update [simp]:
  "length (append_item h n x) = length h" "length (append_pair h n p) = length h"
  "length (set_pair h n i p) = length h"
  by (simp_all add: append_item_def append_pair_def set_pair_def)

lemma take_heap_update:
  "m \<le> n \<Longrightarrow> take m (append_item h n x) = take m h"
  "m \<le> n \<Longrightarrow> take m (append_pair h n p) = take m h"
  "m \<le> n \<Longrightarrow> take m (set_pair h n i p) = take m h"
  by (simp_all add: append_item_def append_pair_def set_pair_def)

lemma assoc_loop_frame:
  "m \<le> n \<Longrightarrow> take m (snd (assoc_loop L key val ps n kf h)) = take m h"
  by (induction ps arbitrary: kf h) (simp_all add: take_heap_update)

lemma assoc_loop_length [simp]: "length (snd (assoc_loop L key val ps n kf h)) = length h"
  by (induction ps arbitrary: kf h) simp_all

lemma assoc_loop_result:
  "n < length h \<Longrightarrow>
   pairs_at (snd (assoc_loop L key val ps n kf h)) n =
     pairs_at h n @ map (\<lambda>p. if values_equal L (fst p) key then (key, val) else p) ps
   \<and> fst (assoc_loop L key val ps n kf h) = (kf \<or> list_ex (\<lambda>p. values_equal L (fst p) key) ps)"
  by (induction ps arbitrary: kf h) (simp_all add: pairs_at_append_pair)

lemma union_loop_frame: "m \<le> n \<Longrightarrow> take m (union_loop L ys n h) = take m h"
  by (induction ys arbitrary: h) (simp_all add: take_heap_update)

lemma union_loop_length [simp]: "length (union_loop L ys n h) = length h"
  by (induction ys arbitrary: h) simp_all

lemma union_loop_result:
  "n < length h \<Longrightarrow> items_at (union_loop L ys n h) n = set_union L (items_at h n) ys"
  by (induction ys arbitrary: h) (simp_all add: items_at_append_item)

lemma merge_loop_frame: "m \<le> n \<Longrightarrow> take m (merge_loop L rs n h) = take m h"
  by (induction rs arbitrary: h) (simp_all add: take_heap_update split: option.splits)

lemma merge_loop_length [simp]: "length (merge_loop L rs n h) = length h"
  by (induction rs arbitrary: h) (simp_all split: option.splits)

lemma update_first_find_key:
  "update_first L k v ps = map_option (\<lambda>i. ps[i := (k, v)]) (find_key L k ps)"
  by (induction ps) (simp_all add: option.map_comp comp_def)

lemma merge_loop_result:
  "n < length h \<Longrightarrow> pairs_at (merge_loop L rs n h) n = dict_merge L (pairs_at h n) rs"
  by (induction rs arbitrary: h)
     (auto simp: update_first_find_key pairs_at_append_pair pairs_at_set_pair
           split: option.splits)

lemma items_at_alloc: "items_at (h @ [Items xs]) (length h) = xs"
  by (simp add: items_at_def)

lemma pairs_at_alloc: "pairs_at (h @ [Pairs ps]) (length h) = ps"
  by (simp add: pairs_at_def)

lemma items_at_old: "a < length h \<Longrightarrow> items_at (h @ cs) a = items_at h a"
  by (simp add: items_at_def nth_append)

lemma pairs_at_old: "a < length h \<Longrightarrow> pairs_at (h @ cs) a = pairs_at h a"
  by (simp add: pairs_at_def nth_append)


lemma deref_frame:
  "take (length h) h' = h \<Longrightarrow> valid_ref h v \<Longrightarrow> deref h' v = deref h v"
proof -
  assume t: "take (length h) h' = h" and v: "valid_ref h v"
  have nth: "h' ! a = h ! a" if "a < length h" for a
    using that t by (metis nth_take)
  show ?thesis
    using v by (cases v) (simp_all add: items_at_def pairs_at_def nth)
qed

lemma push_frame: "take (length h) (snd (builtin_push_heap L item c h)) = h"
  by (cases c) (simp_all add: builtin_push_heap_def alloc_def take_heap_update)

lemma assoc_frame: "take (length h) (snd (builtin_assoc_heap L k v d h)) = h"
  by (cases d)
     (simp_all add: builtin_assoc_heap_def alloc_def take_heap_update assoc_loop_frame
        case_prod_beta Let_def)

lemma add_frame: "take (length h) (snd (add_values_heap L l r h)) = h"
  by (cases l; cases r)
     (simp_all add: add_values_heap_def alloc_def union_loop_frame merge_loop_frame)

lemma push_result:
  assumes "valid_ref h c"
  shows "map_sum id (deref (snd (builtin_push_heap L item c h))) (fst (builtin_push_heap L item c h))
           = builtin_push L item (deref h c)"
  using assms
  by (cases c)
     (simp_all add: builtin_push_heap_def builtin_push_def alloc_def
        items_at_alloc items_at_old items_at_append_item Let_def)

lemma assoc_result:
  assumes "valid_ref h d"
  shows "map_sum id (deref (snd (builtin_assoc_heap L k v d h))) (fst (builtin_assoc_heap L k v d h))
           = builtin_assoc L k v (deref h d)"
proof (cases d)
  case (RDictionary a)
  with assms have a: "a < length h" by simp
  let ?h1 = "h @ [Pairs []]"
  have n: "length h < length ?h1" by simp
  note r = assoc_loop_result [OF n, of L k v "pairs_at h a" False]
  show ?thesis
    using a r
    by (simp add: RDictionary builtin_assoc_heap_def builtin_assoc_def alloc_def pairs_at_old
          pairs_at_alloc pairs_at_append_pair Let_def case_prod_beta)
qed (use assms in \<open>simp_all add: builtin_assoc_heap_def builtin_assoc_def\<close>)

lemma add_result:
  assumes "valid_ref h l" and "valid_ref h r"
  shows "map_sum id (deref (snd (add_values_heap L l r h))) (fst (add_values_heap L l r h))
           = add_values L (deref h l) (deref h r)"
proof -
  have atom: "map_sum id (deref h) (map_sum id RAtom x) = x" for x :: "error + 'a value"
    by (cases x) simp_all
  show ?thesis
    using assms
    by (cases l; cases r)
       (simp_all add: add_values_heap_def alloc_def atom items_at_alloc items_at_old
          pairs_at_alloc pairs_at_old union_loop_result merge_loop_result add_values_def
          is_numeric_def)
qed


lemma push_fresh:
  "fst (builtin_push_heap L item c h) = Inr res \<Longrightarrow> ref_addr res = Some a \<Longrightarrow> length h \<le> a"
  by (cases c) (auto simp: builtin_push_heap_def alloc_def Let_def split: if_splits)

lemma assoc_fresh:
  "fst (builtin_assoc_heap L k v d h) = Inr res \<Longrightarrow> ref_addr res = Some a \<Longrightarrow> length h \<le> a"
  by (cases d) (auto simp: builtin_assoc_heap_def alloc_def Let_def case_prod_beta)

lemma add_fresh:
  "fst (add_values_heap L l r h) = Inr res \<Longrightarrow> ref_addr res = Some a \<Longrightarrow> length h \<le> a"
  by (cases l; cases r)
     (auto simp: add_values_heap_def alloc_def Let_def map_sum_def split: sum.splits)

text \<open>
  Claim C8. \<open>push\<close>, \<open>assoc\<close> and \<open>+\<close> leave every list object of the store as it
  was: the store after the operation begins with the store before it, so every valid
  reference (a variable bound to an operand, for one) still stands for the same
  elements; the list object of the result is a new one; and the result is the value
  that the evaluator's \<open>builtin_push\<close>, \<open>builtin_assoc\<close> and \<open>add_values\<close> return.
\<close>

theorem push_assoc_add_do_not_mutate:
  "take (length h) (snd (builtin_push_heap L item c h)) = h
   \<and> take (length h) (snd (builtin_assoc_heap L k v d h)) = h
   \<and> take (length h) (snd (add_values_heap L l r h)) = h
   \<and> (\<forall>w. valid_ref h w \<longrightarrow>
          deref (snd (builtin_push_heap L item c h)) w = deref h w
        \<and> deref (snd (builtin_assoc_heap L k v d h)) w = deref h w
        \<and> deref (snd (add_values_heap L l r h)) w = deref h w)
   \<and> (\<forall>res a. (fst (builtin_push_heap L item c h) = Inr res
                 \<or> fst (builtin_assoc_heap L k v d h) = Inr res
                 \<or> fst (add_values_heap L l r h) = Inr res)
               \<and> ref_addr res = Some a \<longrightarrow> length h \<le> a)
   \<and> (valid_ref h c \<longrightarrow>
        map_sum id (deref (snd (builtin_push_heap L item c h)))
          (fst (builtin_push_heap L item c h)) = builtin_push L item (deref h c))
   \<and> (valid_ref h d \<longrightarrow>
        map_sum id (deref (snd (builtin_assoc_heap L k v d h)))
          (fst (builtin_assoc_heap L k v d h)) = builtin_assoc L k v (deref h d))
   \<and> (valid_ref h l \<and> valid_ref h r \<longrightarrow>
        map_sum id (deref (snd (add_values_heap L l r h)))
          (fst (add_values_heap L l r h)) = add_values L (deref h l) (deref h r))"
proof (intro conjI allI impI)
  fix res a
  assume "(fst (builtin_push_heap L item c h) = Inr res
           \<or> fst (builtin_assoc_heap L k v d h) = Inr res
           \<or> fst (add_values_heap L l r h) = Inr res) \<and> ref_addr res = Some a"
  then show "length h \<le> a"
    using push_fresh assoc_fresh add_fresh by blast
qed (simp_all add: push_frame assoc_frame add_frame deref_frame push_result assoc_result
       add_result)

theorem push_assoc_add_do_not_mutate_witness:
  "\<forall>L :: (unit, unit) pylib.
     valid_ref ([Items [ElfInteger 1], Pairs [(ElfString ''a'', ElfInteger 1)]] :: unit heap)
       (RList 0)
   \<and> valid_ref ([Items [ElfInteger 1], Pairs [(ElfString ''a'', ElfInteger 1)]] :: unit heap)
       (RDictionary 1)
   \<and> builtin_push_heap L (ElfInteger 2) (RList 0)
         [Items [ElfInteger 1], Pairs [(ElfString ''a'', ElfInteger 1)]]
       = (Inr (RList 2), [Items [ElfInteger 1], Pairs [(ElfString ''a'', ElfInteger 1)],
                          Items [ElfInteger 1, ElfInteger 2]])
   \<and> builtin_assoc_heap L (ElfString ''a'') (ElfInteger 5) (RDictionary 1)
         [Items [ElfInteger 1], Pairs [(ElfString ''a'', ElfInteger 1)]]
       = (Inr (RDictionary 2), [Items [ElfInteger 1], Pairs [(ElfString ''a'', ElfInteger 1)],
                                Pairs [(ElfString ''a'', ElfInteger 5)]])
   \<and> add_values_heap L (RList 0) (RList 0)
         [Items [ElfInteger 1], Pairs [(ElfString ''a'', ElfInteger 1)]]
       = (Inr (RList 2), [Items [ElfInteger 1], Pairs [(ElfString ''a'', ElfInteger 1)],
                          Items [ElfInteger 1, ElfInteger 1]])
   \<and> deref (snd (builtin_push_heap L (ElfInteger 2) (RList 0)
         [Items [ElfInteger 1], Pairs [(ElfString ''a'', ElfInteger 1)]])) (RList 0)
       = ElfList [ElfInteger 1]
   \<and> builtin_push L (ElfInteger 2) (ElfList [ElfInteger 1])
       = Inr (ElfList [ElfInteger 1, ElfInteger 2])"
proof
  fix L :: "(unit, unit) pylib"
  let ?h = "[Items [ElfInteger 1], Pairs [(ElfString ''a'', ElfInteger 1)]] :: unit heap"
  have v1: "valid_ref ?h (RList 0)" and v2: "valid_ref ?h (RDictionary 1)" by simp_all
  have p: "builtin_push_heap L (ElfInteger 2) (RList 0) ?h
       = (Inr (RList 2), ?h @ [Items [ElfInteger 1, ElfInteger 2]])"
    by (simp add: builtin_push_heap_def alloc_def items_at_def)
  have a: "builtin_assoc_heap L (ElfString ''a'') (ElfInteger 5) (RDictionary 1) ?h
       = (Inr (RDictionary 2), ?h @ [Pairs [(ElfString ''a'', ElfInteger 5)]])"
    by (simp add: builtin_assoc_heap_def alloc_def pairs_at_def append_pair_def)
  have s: "add_values_heap L (RList 0) (RList 0) ?h
       = (Inr (RList 2), ?h @ [Items [ElfInteger 1, ElfInteger 1]])"
    by (simp add: add_values_heap_def alloc_def items_at_def)
  note t = push_assoc_add_do_not_mutate [of ?h L "ElfInteger 2" "RList 0" "ElfString ''a''"
      "ElfInteger 5" "RDictionary 1" "RList 0" "RList 0"]
  have d0: "deref ?h (RList 0) = ElfList [ElfInteger 1]"
    by (simp add: items_at_def)
  from t v1 have "deref (snd (builtin_push_heap L (ElfInteger 2) (RList 0) ?h)) (RList 0)
       = deref ?h (RList 0)"
    by blast
  then have d: "deref (snd (builtin_push_heap L (ElfInteger 2) (RList 0) ?h)) (RList 0)
       = ElfList [ElfInteger 1]"
    by (simp only: d0)
  from t v1 have "map_sum id (deref (snd (builtin_push_heap L (ElfInteger 2) (RList 0) ?h)))
          (fst (builtin_push_heap L (ElfInteger 2) (RList 0) ?h))
       = builtin_push L (ElfInteger 2) (deref ?h (RList 0))"
    by blast
  then have b: "builtin_push L (ElfInteger 2) (ElfList [ElfInteger 1])
       = Inr (ElfList [ElfInteger 1, ElfInteger 2])"
    by (simp add: p d0 items_at_def)
  show "valid_ref ?h (RList 0) \<and> valid_ref ?h (RDictionary 1)
   \<and> builtin_push_heap L (ElfInteger 2) (RList 0) ?h
       = (Inr (RList 2), [Items [ElfInteger 1], Pairs [(ElfString ''a'', ElfInteger 1)],
                          Items [ElfInteger 1, ElfInteger 2]])
   \<and> builtin_assoc_heap L (ElfString ''a'') (ElfInteger 5) (RDictionary 1) ?h
       = (Inr (RDictionary 2), [Items [ElfInteger 1], Pairs [(ElfString ''a'', ElfInteger 1)],
                                Pairs [(ElfString ''a'', ElfInteger 5)]])
   \<and> add_values_heap L (RList 0) (RList 0) ?h
       = (Inr (RList 2), [Items [ElfInteger 1], Pairs [(ElfString ''a'', ElfInteger 1)],
                          Items [ElfInteger 1, ElfInteger 1]])
   \<and> deref (snd (builtin_push_heap L (ElfInteger 2) (RList 0) ?h)) (RList 0)
       = ElfList [ElfInteger 1]
   \<and> builtin_push L (ElfInteger 2) (ElfList [ElfInteger 1])
       = Inr (ElfList [ElfInteger 1, ElfInteger 2])"
    using v1 v2 p a s d b by simp
qed

end
